theory Spec2Isabelle
  imports Complex_Main
begin

section \<open>Values of a parsed JSON request body\<close>

text \<open>
  The route \<^verbatim>\<open>src/app/api/firebase/route.ts\<close> reads its input with
  \<^verbatim>\<open>await request.json()\<close>. A parsed JSON number is a finite double or, for a
  literal beyond the double range such as \<^verbatim>\<open>1e999\<close>, an infinity; it is never NaN.
  Finite doubles are embedded in the reals, on which the comparisons of the source are exact.
\<close>

datatype jnum = Fin real | PosInfinity | NegInfinity

text \<open>The JavaScript comparison \<^verbatim>\<open>a < b\<close> on such numbers.\<close>

fun jnum_less :: "jnum \<Rightarrow> jnum \<Rightarrow> bool" where
  "jnum_less (Fin a) (Fin b) = (a < b)"
| "jnum_less NegInfinity NegInfinity = False"
| "jnum_less NegInfinity _ = True"
| "jnum_less PosInfinity _ = False"
| "jnum_less (Fin a) PosInfinity = True"
| "jnum_less (Fin a) NegInfinity = False"

text \<open>
  An object is the list of its properties; a property read takes the first entry for the
  key. \<open>None\<close> of type \<open>json option\<close> is JavaScript's \<^verbatim>\<open>undefined\<close>.
\<close>

datatype json =
    JNull
  | JBool bool
  | JNum jnum
  | JStr string
  | JArr "json list"
  | JObj "(string \<times> json) list"

datatype js_error = TypeError

text \<open>
  The property read \<^verbatim>\<open>v.key\<close>. Reading a property of \<^verbatim>\<open>null\<close> throws a
  TypeError. The keys the route reads (\<^verbatim>\<open>stationId\<close>, \<^verbatim>\<open>aqi\<close>,
  \<^verbatim>\<open>pollutants\<close>, \<^verbatim>\<open>pm25\<close>, \<^verbatim>\<open>pm10\<close>, \<^verbatim>\<open>readings\<close>,
  \<^verbatim>\<open>source\<close>, \<^verbatim>\<open>metadata\<close>) are properties of no boolean, number, string or
  array, so the read gives \<^verbatim>\<open>undefined\<close> there.
\<close>

fun getprop :: "json \<Rightarrow> string \<Rightarrow> js_error + json option" where
  "getprop JNull key = Inl TypeError"
| "getprop (JObj kvs) key = Inr (map_of kvs key)"
| "getprop v key = Inr None"

text \<open>Truthiness, as \<^verbatim>\<open>!v\<close> and \<^verbatim>\<open>a && b\<close> and \<^verbatim>\<open>a || b\<close> test it.\<close>

fun truthy :: "json option \<Rightarrow> bool" where
  "truthy None = False"
| "truthy (Some JNull) = False"
| "truthy (Some (JBool b)) = b"
| "truthy (Some (JNum n)) = (n \<noteq> Fin 0)"
| "truthy (Some (JStr s)) = (s \<noteq> [])"
| "truthy (Some (JArr xs)) = True"
| "truthy (Some (JObj kvs)) = True"

fun typeof :: "json option \<Rightarrow> string" where
  "typeof None = ''undefined''"
| "typeof (Some JNull) = ''object''"
| "typeof (Some (JBool b)) = ''boolean''"
| "typeof (Some (JNum n)) = ''number''"
| "typeof (Some (JStr s)) = ''string''"
| "typeof (Some (JArr xs)) = ''object''"
| "typeof (Some (JObj kvs)) = ''object''"

text \<open>\<^verbatim>\<open>v.key\<close> where \<^verbatim>\<open>v\<close> may itself be \<^verbatim>\<open>undefined\<close> (a TypeError, as for null).\<close>

fun getprop_of :: "json option \<Rightarrow> string \<Rightarrow> js_error + json option" where
  "getprop_of None key = Inl TypeError"
| "getprop_of (Some v) key = getprop v key"

text \<open>The comparisons \<^verbatim>\<open>v < 0\<close> and \<^verbatim>\<open>v > 500\<close>, used only once \<^verbatim>\<open>typeof v\<close>
  is known to be \<^verbatim>\<open>'number'\<close>.\<close>

fun num_lt :: "json option \<Rightarrow> real \<Rightarrow> bool" where
  "num_lt (Some (JNum n)) c = jnum_less n (Fin c)"
| "num_lt _ c = False"

fun num_gt :: "json option \<Rightarrow> real \<Rightarrow> bool" where
  "num_gt (Some (JNum n)) c = jnum_less (Fin c) n"
| "num_gt _ c = False"

section \<open>The validation route: \<^verbatim>\<open>validateReading\<close> and \<^verbatim>\<open>POST\<close>\<close>

text \<open>
  \<^verbatim>\<open>validateReading\<close> returns the error message, or \<^verbatim>\<open>null\<close> (here \<open>None\<close>) for
  an accepted reading; a TypeError thrown by a property read is \<open>Inl\<close>.
\<close>

definition validateReading :: "json \<Rightarrow> js_error + string option" where
  "validateReading data =
     (case getprop data ''stationId'' of
        Inl e \<Rightarrow> Inl e
      | Inr stationId \<Rightarrow>
          if \<not> truthy stationId \<or> typeof stationId \<noteq> ''string''
          then Inr (Some ''stationId is required and must be a string'')
          else
            (case getprop data ''aqi'' of
               Inl e \<Rightarrow> Inl e
             | Inr aqi \<Rightarrow>
                 if typeof aqi \<noteq> ''number'' \<or> num_lt aqi 0 \<or> num_gt aqi 500
                 then Inr (Some ''aqi must be a number between 0 and 500'')
                 else
                   (case getprop data ''pollutants'' of
                      Inl e \<Rightarrow> Inl e
                    | Inr pollutants \<Rightarrow>
                        if \<not> truthy pollutants \<or> typeof pollutants \<noteq> ''object''
                        then Inr (Some ''pollutants object is required'')
                        else
                          (case getprop_of pollutants ''pm25'' of
                             Inl e \<Rightarrow> Inl e
                           | Inr pm25 \<Rightarrow>
                               if typeof pm25 \<noteq> ''number''
                               then Inr (Some ''pollutants.pm25 is required'')
                               else
                                 (case getprop_of pollutants ''pm10'' of
                                    Inl e \<Rightarrow> Inl e
                                  | Inr pm10 \<Rightarrow>
                                      if typeof pm10 \<noteq> ''number''
                                      then Inr (Some ''pollutants.pm10 is required'')
                                      else Inr None)))))"

text \<open>
  A request as \<^verbatim>\<open>POST\<close> sees it: the body (\<open>None\<close> when \<^verbatim>\<open>request.json()\<close>
  throws), the \<^verbatim>\<open>x-api-key\<close> header, the environment variable
  \<^verbatim>\<open>AQI_UPDATE_API_KEY\<close> and the clock reading of \<^verbatim>\<open>new Date().toISOString()\<close>.
\<close>

record post_request =
  body :: "json option"
  apiKey :: "string option"
  expectedKey :: "string option"
  nowISO :: string

text \<open>A response: the HTTP status (200 unless given) and the properties of the JSON payload.\<close>

record response =
  status :: nat
  payload :: "(string \<times> json) list"

text \<open>An object literal; a property whose value is \<^verbatim>\<open>undefined\<close> is left out of the
  serialised payload.\<close>

fun object :: "(string \<times> json option) list \<Rightarrow> (string \<times> json) list" where
  "object [] = []"
| "object ((k, None) # kvs) = object kvs"
| "object ((k, Some v) # kvs) = (k, v) # object kvs"

text \<open>\<^verbatim>\<open>a || b\<close>\<close>

definition or_else :: "json option \<Rightarrow> json option \<Rightarrow> json option" where
  "or_else a b = (if truthy a then a else b)"

text \<open>The decimal digits of a number in a template string.\<close>

fun decimal :: "nat \<Rightarrow> string" where
  "decimal n =
     (if n < 10 then [char_of (48 + n)]
      else decimal (n div 10) @ [char_of (48 + n mod 10)])"

text \<open>
  The \<^verbatim>\<open>forEach\<close> of the batch branch: \<open>index\<close> counts the readings; the accumulator
  holds \<^verbatim>\<open>validatedReadings\<close> and \<^verbatim>\<open>errors\<close>. A TypeError thrown by
  \<^verbatim>\<open>validateReading\<close> leaves the loop.
\<close>

fun validate_each ::
  "json list \<Rightarrow> nat \<Rightarrow> json list \<times> json list \<Rightarrow> js_error + (json list \<times> json list)" where
  "validate_each [] index acc = Inr acc"
| "validate_each (reading # rest) index (validatedReadings, errors) =
     (case validateReading reading of
        Inl e \<Rightarrow> Inl e
      | Inr (Some error) \<Rightarrow>
          validate_each rest (Suc index)
            (validatedReadings,
             errors @ [JObj [(''index'', JNum (Fin (real index))), (''error'', JStr error)]])
      | Inr None \<Rightarrow>
          (case getprop reading ''source'' of
             Inl e \<Rightarrow> Inl e
           | Inr source \<Rightarrow>
               validate_each rest (Suc index)
                 (validatedReadings @
                    [JObj ((case reading of JObj kvs \<Rightarrow> filter (\<lambda>kv. fst kv \<noteq> ''source'') kvs | _ \<Rightarrow> [])
                           @ object [(''source'', or_else source (Some (JStr ''api'')))])],
                  errors)))"

definition server_error :: response where
  "server_error =
     \<lparr>status = 500,
      payload = [(''success'', JBool False), (''error'', JStr ''Invalid JSON or server error'')]\<rparr>"

text \<open>\<^verbatim>\<open>expectedKey && apiKey !== expectedKey\<close>\<close>

definition unauthorized :: "post_request \<Rightarrow> bool" where
  "unauthorized req =
     (case expectedKey req of
        None \<Rightarrow> False
      | Some k \<Rightarrow> k \<noteq> [] \<and> apiKey req \<noteq> Some k)"

text \<open>\<^verbatim>\<open>body.readings && Array.isArray(body.readings)\<close>\<close>

fun isArray :: "json option \<Rightarrow> bool" where
  "isArray (Some (JArr xs)) = True"
| "isArray _ = False"

definition bind_err :: "js_error + 'a \<Rightarrow> ('a \<Rightarrow> js_error + 'b) \<Rightarrow> js_error + 'b" where
  "bind_err m f = (case m of Inl e \<Rightarrow> Inl e | Inr x \<Rightarrow> f x)"

text \<open>The batch branch of \<^verbatim>\<open>POST\<close>.\<close>

definition batch_response :: "post_request \<Rightarrow> json list \<Rightarrow> js_error + response" where
  "batch_response req rs =
     bind_err (validate_each rs 0 ([], [])) (\<lambda>(validatedReadings, errors).
       Inr \<lparr>status = 200,
            payload = object
              [(''success'', Some (JBool (length errors = 0))),
               (''message'', Some (JStr (''Validated '' @ decimal (length validatedReadings)
                    @ ''/'' @ decimal (length rs) @ '' readings''))),
               (''validatedReadings'', Some (JArr validatedReadings)),
               (''errors'', if length errors > 0 then Some (JArr errors) else None),
               (''timestamp'', Some (JStr (nowISO req))),
               (''clientAction'',
                  Some (JStr ''Use firestore-aqi-service.ts to save validated readings''))]\<rparr>)"

text \<open>The single-reading branch of \<^verbatim>\<open>POST\<close>.\<close>

definition single_response :: "post_request \<Rightarrow> json \<Rightarrow> js_error + response" where
  "single_response req data =
     bind_err (validateReading data) (\<lambda>validationError.
       case validationError of
         Some msg \<Rightarrow>
           Inr \<lparr>status = 400,
                payload = [(''success'', JBool False), (''error'', JStr msg)]\<rparr>
       | None \<Rightarrow>
           bind_err (getprop data ''stationId'') (\<lambda>stationId.
           bind_err (getprop data ''aqi'') (\<lambda>aqi.
           bind_err (getprop data ''pollutants'') (\<lambda>pollutants.
           bind_err (getprop data ''source'') (\<lambda>source.
           bind_err (getprop data ''metadata'') (\<lambda>metadata.
             Inr \<lparr>status = 200,
                  payload = object
                    [(''success'', Some (JBool True)),
                     (''message'', Some (JStr ''Data validated successfully'')),
                     (''data'', Some (JObj (object
                        [(''stationId'', stationId),
                         (''aqi'', aqi),
                         (''pollutants'', pollutants),
                         (''source'', or_else source (Some (JStr ''api''))),
                         (''metadata'', metadata),
                         (''timestamp'', Some (JStr (nowISO req)))]))),
                     (''clientAction'',
                        Some (JStr ''Use firestore-aqi-service.ts updateAQIData() to save''))]\<rparr>))))))"

text \<open>
  The body of the \<^verbatim>\<open>try\<close> block of \<^verbatim>\<open>POST\<close>, after \<^verbatim>\<open>request.json()\<close>
  has returned \<open>b\<close>.
\<close>

definition POST_try :: "post_request \<Rightarrow> json \<Rightarrow> js_error + response" where
  "POST_try req b =
     (if unauthorized req
      then Inr \<lparr>status = 401,
                payload = [(''success'', JBool False),
                           (''error'', JStr ''Unauthorized - Invalid API key'')]\<rparr>
      else
        bind_err (getprop b ''readings'') (\<lambda>readings.
          if truthy readings \<and> isArray readings
          then (case readings of Some (JArr rs) \<Rightarrow> batch_response req rs | _ \<Rightarrow> Inl TypeError)
          else single_response req b))"

text \<open>\<^verbatim>\<open>POST\<close>: whatever the \<^verbatim>\<open>try\<close> block throws becomes the 500 response.\<close>

definition POST :: "post_request \<Rightarrow> response" where
  "POST req =
     (case body req of
        None \<Rightarrow> server_error
      | Some b \<Rightarrow> (case POST_try req b of Inl e \<Rightarrow> server_error | Inr r \<Rightarrow> r))"

text \<open>
  The condition of the specification on a reading, in its words: the station id is a
  non-empty string, the index value is a number in the closed range from 0 to 500, and the
  two primary pollutant fields are numbers.
\<close>

definition spec_valid_reading :: "json \<Rightarrow> bool" where
  "spec_valid_reading data \<longleftrightarrow>
     (\<exists>s. getprop data ''stationId'' = Inr (Some (JStr s)) \<and> s \<noteq> [])
   \<and> (\<exists>x. getprop data ''aqi'' = Inr (Some (JNum (Fin x))) \<and> 0 \<le> x \<and> x \<le> 500)
   \<and> (\<exists>p a b. getprop data ''pollutants'' = Inr (Some p)
        \<and> getprop p ''pm25'' = Inr (Some (JNum a)) \<and> getprop p ''pm10'' = Inr (Some (JNum b)))"

text \<open>
  A request reaches the single-reading branch of \<^verbatim>\<open>POST\<close> when its body parsed, the
  API-key gate let it through, and the body is not \<^verbatim>\<open>null\<close> and carries no
  \<^verbatim>\<open>readings\<close> array.
\<close>

definition single_reading_request :: "post_request \<Rightarrow> json \<Rightarrow> bool" where
  "single_reading_request req b \<longleftrightarrow>
     body req = Some b \<and> \<not> unauthorized req \<and> b \<noteq> JNull
     \<and> (case getprop b ''readings'' of Inr (Some (JArr rs)) \<Rightarrow> False | _ \<Rightarrow> True)"

text \<open>A sample reading with the index value \<open>a\<close>, and the request carrying it with no
  API key configured.\<close>

definition sample_body :: "real \<Rightarrow> json" where
  "sample_body a =
     JObj [(''stationId'', JStr ''s1''), (''aqi'', JNum (Fin a)),
           (''pollutants'', JObj [(''pm25'', JNum (Fin 196)), (''pm10'', JNum (Fin 315))])]"

definition sample_request :: "real \<Rightarrow> post_request" where
  "sample_request a =
     \<lparr>body = Some (sample_body a), apiKey = None, expectedKey = None,
      nowISO = ''2025-01-01T00:00:00.000Z''\<rparr>"

section \<open>The history route: the \<^verbatim>\<open>GET\<close> handler that calls \<^verbatim>\<open>getHistoricalData\<close>\<close>

text \<open>
  The query parameters as \<^verbatim>\<open>searchParams.get\<close> returns them (\<open>None\<close> for
  \<^verbatim>\<open>null\<close>).
\<close>

record history_query =
  range_param :: "string option"
  station_param :: "string option"
  startDate_param :: "string option"
  endDate_param :: "string option"

text \<open>An entry of the allow-list \<^verbatim>\<open>DELHI_STATIONS\<close>. The list is declared in
  \<^verbatim>\<open>@/lib/historical-api\<close> and is a parameter of the model.\<close>

record station_entry =
  station_id :: string
  station_name :: string
  station_type :: string

text \<open>A call of \<^verbatim>\<open>getHistoricalData(stationId, range, customRange)\<close>, the only store
  access of the route.\<close>

record historical_call =
  call_station :: string
  call_range :: string
  call_custom :: "(string \<times> string) option"

text \<open>\<^verbatim>\<open>searchParams.get(k) || d\<close>\<close>

definition param_or :: "string option \<Rightarrow> string \<Rightarrow> string" where
  "param_or p d = (case p of None \<Rightarrow> d | Some s \<Rightarrow> if s = [] then d else s)"

text \<open>\<^verbatim>\<open>!p\<close> for a parameter: \<^verbatim>\<open>null\<close> or the empty string.\<close>

definition missing :: "string option \<Rightarrow> bool" where
  "missing p = (case p of None \<Rightarrow> True | Some s \<Rightarrow> s = [])"

definition error_response :: "nat \<Rightarrow> string \<Rightarrow> response" where
  "error_response code msg =
     \<lparr>status = code, payload = [(''success'', JBool False), (''error'', JStr msg)]\<rparr>"

definition ms_per_day :: int where
  "ms_per_day = 1000 * 60 * 60 * 24"

text \<open>
  \<^verbatim>\<open>Math.ceil((end.getTime() - start.getTime()) / (1000 * 60 * 60 * 24))\<close>. The source
  divides in double arithmetic; the quotient of two integers below \<open>2^53\<close> is above 90
  exactly when the rounded quotient is, so the test \<^verbatim>\<open>diffDays > 90\<close> is the one made here.
\<close>

definition diffDays :: "int \<Rightarrow> int \<Rightarrow> int" where
  "diffDays start end = \<lceil>real_of_int (end - start) / real_of_int ms_per_day\<rceil>"

text \<open>
  The block \<^verbatim>\<open>if (range === 'custom') { ... }\<close>: a 400 response (\<open>Inl\<close>) or the
  value of \<^verbatim>\<open>customRange\<close>. \<open>parseDate\<close> is \<^verbatim>\<open>new Date(s).getTime()\<close>, with
  \<open>None\<close> for the NaN of an invalid date.
\<close>

definition custom_range ::
  "(string \<Rightarrow> int option) \<Rightarrow> string option \<Rightarrow> string option \<Rightarrow> response + (string \<times> string)" where
  "custom_range parseDate startDate endDate =
     (if missing startDate \<or> missing endDate
      then Inl (error_response 400 ''Custom range requires startDate and endDate parameters'')
      else
        (case (parseDate (the startDate), parseDate (the endDate)) of
           (Some start, Some end) \<Rightarrow>
             if start > end
             then Inl (error_response 400 ''Start date must be before or equal to end date'')
             else if diffDays start end > 90
             then Inl (error_response 400 ''Date range cannot exceed 90 days'')
             else Inr (the startDate, the endDate)
         | _ \<Rightarrow> Inl (error_response 400 ''Invalid date format. Use ISO date string (YYYY-MM-DD)'')))"

text \<open>The call of \<^verbatim>\<open>getHistoricalData\<close> and the response built from what it returns;
  \<open>Inl\<close> is an exception, which the \<^verbatim>\<open>catch\<close> of the route turns into status 500.\<close>

definition fetch_history ::
  "(historical_call \<Rightarrow> string + (string \<times> json) list) \<Rightarrow> historical_call
     \<Rightarrow> response \<times> historical_call list" where
  "fetch_history getHistoricalData c =
     (case getHistoricalData c of
        Inl e \<Rightarrow> (error_response 500 ''Internal server error'', [c])
      | Inr result \<Rightarrow> (\<lparr>status = 200, payload = result\<rparr>, [c]))"

text \<open>The handler returns its response and the list of the calls of
  \<^verbatim>\<open>getHistoricalData\<close> it has made.\<close>

definition history_GET ::
  "station_entry list \<Rightarrow> (string \<Rightarrow> int option)
     \<Rightarrow> (historical_call \<Rightarrow> string + (string \<times> json) list)
     \<Rightarrow> history_query \<Rightarrow> response \<times> historical_call list" where
  "history_GET DELHI_STATIONS parseDate getHistoricalData q =
     (let range = param_or (range_param q) ''24h'';
          stationId = param_or (station_param q) ''aicte-delhi'';
          startDate = startDate_param q;
          endDate = endDate_param q
      in
        if range \<notin> set [''24h'', ''7d'', ''30d'', ''custom'']
        then (error_response 400 ''Invalid range. Use 24h, 7d, 30d, or custom'', [])
        else
          (case find (\<lambda>s. station_id s = stationId) DELHI_STATIONS of
             None \<Rightarrow>
               (\<lparr>status = 400,
                 payload =
                   [(''success'', JBool False), (''error'', JStr ''Invalid station''),
                    (''validStations'',
                       JArr (map (\<lambda>s. JObj [(''id'', JStr (station_id s)),
                                              (''name'', JStr (station_name s)),
                                              (''type'', JStr (station_type s))])
                                 DELHI_STATIONS))]\<rparr>,
                [])
           | Some validStation \<Rightarrow>
               if range = ''custom''
               then
                 (case custom_range parseDate startDate endDate of
                    Inl rejected \<Rightarrow> (rejected, [])
                  | Inr customRange \<Rightarrow>
                      fetch_history getHistoricalData
                        \<lparr>call_station = stationId, call_range = range,
                         call_custom = Some customRange\<rparr>)
               else
                 fetch_history getHistoricalData
                   \<lparr>call_station = stationId, call_range = range, call_custom = None\<rparr>))"

text \<open>A sample allow-list, date table and store for evaluating the handler.\<close>

definition sample_stations :: "station_entry list" where
  "sample_stations =
     [\<lparr>station_id = ''aicte-delhi'', station_name = ''AICTE Delhi'', station_type = ''pranamesh''\<rparr>]"

definition sample_parseDate :: "string \<Rightarrow> int option" where
  "sample_parseDate = map_of
     [(''2024-01-01'', 1704067200000), (''2024-03-01'', 1709251200000),
      (''2024-06-01'', 1717200000000)]"

definition sample_history :: "historical_call \<Rightarrow> string + (string \<times> json) list" where
  "sample_history c = Inr [(''success'', JBool True)]"

definition custom_query :: "string \<Rightarrow> string \<Rightarrow> history_query" where
  "custom_query s e =
     \<lparr>range_param = Some ''custom'', station_param = None,
      startDate_param = Some s, endDate_param = Some e\<rparr>"

section \<open>The weather route: \<^verbatim>\<open>fetchAccuWeather\<close> and \<^verbatim>\<open>GET\<close> of \<^verbatim>\<open>/api/weather\<close>\<close>

text \<open>The fields of an \<^verbatim>\<open>AccuWeatherCondition\<close> that the route reads, named by their
  path in the reply.\<close>

record accu_condition =
  WeatherText :: string
  WeatherIcon :: real
  IsDayTime :: bool
  Temperature_Metric_Value :: real
  RelativeHumidity :: real
  Wind_Speed_Metric_Value :: real
  Wind_Direction_English :: string
  UVIndex :: real
  UVIndexText :: string
  Visibility_Metric_Value :: real
  Pressure_Metric_Value :: real
  RealFeelTemperature_Metric_Value :: real

text \<open>
  What the request to AccuWeather does: \<^verbatim>\<open>fetch\<close> or \<^verbatim>\<open>response.json()\<close>
  throws, the response is not \<^verbatim>\<open>ok\<close>, or the body parses to \<^verbatim>\<open>null\<close>
  (\<open>None\<close>) or to an array of conditions.
\<close>

datatype accu_reply = FetchThrows | NotOk | Body "accu_condition list option"

text \<open>\<^verbatim>\<open>Math.round\<close>: the nearest integer, a tie going up.\<close>

definition js_round :: "real \<Rightarrow> int" where
  "js_round x = \<lfloor>x + 1 / 2\<rfloor>"

record accu_weather =
  aw_temperature :: int
  aw_humidity :: real
  aw_windSpeed :: int
  aw_uvIndex :: real
  aw_uvIndexText :: string
  aw_weatherText :: string
  aw_weatherIcon :: real
  aw_isDayTime :: bool
  aw_feelsLike :: int
  aw_visibility :: real
  aw_pressure :: real
  aw_windDirection :: string

text \<open>\<^verbatim>\<open>fetchAccuWeather\<close>: its own \<^verbatim>\<open>catch\<close> returns \<^verbatim>\<open>null\<close>, so it never
  throws.\<close>

definition fetchAccuWeather :: "accu_reply \<Rightarrow> accu_weather option" where
  "fetchAccuWeather reply =
     (case reply of
        FetchThrows \<Rightarrow> None
      | NotOk \<Rightarrow> None
      | Body None \<Rightarrow> None
      | Body (Some []) \<Rightarrow> None
      | Body (Some (current # rest)) \<Rightarrow>
          Some \<lparr>aw_temperature = js_round (Temperature_Metric_Value current),
                aw_humidity = RelativeHumidity current,
                aw_windSpeed = js_round (Wind_Speed_Metric_Value current),
                aw_uvIndex = UVIndex current,
                aw_uvIndexText = UVIndexText current,
                aw_weatherText = WeatherText current,
                aw_weatherIcon = WeatherIcon current,
                aw_isDayTime = IsDayTime current,
                aw_feelsLike = js_round (RealFeelTemperature_Metric_Value current),
                aw_visibility = Visibility_Metric_Value current,
                aw_pressure = Pressure_Metric_Value current,
                aw_windDirection = Wind_Direction_English current\<rparr>)"

text \<open>
  \<^verbatim>\<open>fetchWAQIData\<close> (of \<^verbatim>\<open>@/lib/waqi-api\<close>) and \<^verbatim>\<open>getScrapedData\<close> (of
  \<^verbatim>\<open>@/lib/aqi-service\<close>) are parameters of the model: a call throws, or returns
  \<^verbatim>\<open>null\<close> or a value, of which the route reads the fields below.
\<close>

datatype 'a call_outcome = Thrown string | Returned "'a option"

record waqi_weather =
  w_temperature :: "json option"
  w_humidity :: "json option"
  w_windSpeed :: "json option"
  w_pressure :: "json option"
  w_lastUpdated :: "json option"

record scraped_weather =
  s_temperature :: "json option"
  s_humidity :: "json option"
  s_windSpeed :: "json option"
  s_lastUpdated :: "json option"

datatype tier = AccuWeather | WAQI | ScrapedData

definition num :: "real \<Rightarrow> json option" where
  "num x = Some (JNum (Fin x))"

definition accu_response :: "accu_weather \<Rightarrow> string \<Rightarrow> response" where
  "accu_response accuWeatherData now =
     \<lparr>status = 200,
      payload = object
        [(''success'', Some (JBool True)),
         (''source'', Some (JStr ''accuweather'')),
         (''temperature'', num (real_of_int (aw_temperature accuWeatherData))),
         (''humidity'', num (aw_humidity accuWeatherData)),
         (''windSpeed'', num (real_of_int (aw_windSpeed accuWeatherData))),
         (''uvIndex'', num (aw_uvIndex accuWeatherData)),
         (''uvIndexText'', Some (JStr (aw_uvIndexText accuWeatherData))),
         (''weatherText'', Some (JStr (aw_weatherText accuWeatherData))),
         (''weatherIcon'', num (aw_weatherIcon accuWeatherData)),
         (''isDayTime'', Some (JBool (aw_isDayTime accuWeatherData))),
         (''feelsLike'', num (real_of_int (aw_feelsLike accuWeatherData))),
         (''visibility'', num (aw_visibility accuWeatherData)),
         (''pressure'', num (aw_pressure accuWeatherData)),
         (''windDirection'', Some (JStr (aw_windDirection accuWeatherData))),
         (''lastUpdated'', Some (JStr now))]\<rparr>"

definition waqi_response :: "waqi_weather \<Rightarrow> response" where
  "waqi_response waqiData =
     \<lparr>status = 200,
      payload = object
        [(''success'', Some (JBool True)),
         (''source'', Some (JStr ''waqi'')),
         (''temperature'', w_temperature waqiData),
         (''humidity'', w_humidity waqiData),
         (''windSpeed'', w_windSpeed waqiData),
         (''pressure'', w_pressure waqiData),
         (''lastUpdated'', w_lastUpdated waqiData)]\<rparr>"

definition scraped_response :: "scraped_weather \<Rightarrow> response" where
  "scraped_response scrapedData =
     \<lparr>status = 200,
      payload = object
        [(''success'', Some (JBool True)),
         (''source'', Some (JStr ''scraped'')),
         (''temperature'', s_temperature scrapedData),
         (''humidity'', s_humidity scrapedData),
         (''windSpeed'', s_windSpeed scrapedData),
         (''lastUpdated'', s_lastUpdated scrapedData)]\<rparr>"

definition fallback_response :: "string \<Rightarrow> response" where
  "fallback_response now =
     \<lparr>status = 200,
      payload = object
        [(''success'', Some (JBool True)),
         (''source'', Some (JStr ''fallback'')),
         (''temperature'', num 20),
         (''humidity'', num 50),
         (''windSpeed'', num 5),
         (''lastUpdated'', Some (JStr now))]\<rparr>"

text \<open>The response of the \<^verbatim>\<open>catch\<close> block of the handler.\<close>

definition weather_error_response :: "string \<Rightarrow> response" where
  "weather_error_response message =
     \<lparr>status = 500,
      payload =
        [(''success'', JBool False), (''error'', JStr ''Failed to fetch weather data''),
         (''message'', JStr message)]\<rparr>"

text \<open>
  The handler returns its response and the sources it has called, in the order of the
  calls. A later source is called only when the earlier ones returned \<^verbatim>\<open>null\<close>.
\<close>

definition weather_GET ::
  "accu_reply \<Rightarrow> waqi_weather call_outcome \<Rightarrow> scraped_weather call_outcome \<Rightarrow> string
     \<Rightarrow> response \<times> tier list" where
  "weather_GET reply fetchWAQIData getScrapedData now =
     (case fetchAccuWeather reply of
        Some accuWeatherData \<Rightarrow> (accu_response accuWeatherData now, [AccuWeather])
      | None \<Rightarrow>
          (case fetchWAQIData of
             Thrown e \<Rightarrow> (weather_error_response e, [AccuWeather, WAQI])
           | Returned (Some waqiData) \<Rightarrow> (waqi_response waqiData, [AccuWeather, WAQI])
           | Returned None \<Rightarrow>
               (case getScrapedData of
                  Thrown e \<Rightarrow> (weather_error_response e, [AccuWeather, WAQI, ScrapedData])
                | Returned (Some scrapedData) \<Rightarrow>
                    (scraped_response scrapedData, [AccuWeather, WAQI, ScrapedData])
                | Returned None \<Rightarrow>
                    (fallback_response now, [AccuWeather, WAQI, ScrapedData]))))"

text \<open>The \<^verbatim>\<open>source\<close> tag of a response, if it carries one.\<close>

definition source_tag :: "response \<Rightarrow> json option" where
  "source_tag r = map_of (payload r) ''source''"

section \<open>The Firestore service: \<^verbatim>\<open>src/lib/firestore-aqi-service.ts\<close>\<close>

subsection \<open>Readings\<close>

datatype source = Manual | Sensor | Api

fun source_string :: "source \<Rightarrow> string" where
  "source_string Manual = ''manual''"
| "source_string Sensor = ''sensor''"
| "source_string Api = ''api''"

text \<open>
  \<^verbatim>\<open>Pollutants\<close>. The interface declares the six gases as numbers; a caller that passes
  only \<^verbatim>\<open>pm25\<close> and \<^verbatim>\<open>pm10\<close> leaves the others \<^verbatim>\<open>undefined\<close>, which is
  \<open>None\<close> here. The service passes all numbers on unchanged.
\<close>

record Pollutants =
  pm25 :: real
  pm10 :: real
  co :: "real option"
  no2 :: "real option"
  so2 :: "real option"
  o3 :: "real option"
  voc :: "real option"

text \<open>
  \<^verbatim>\<open>Omit<AQIReading, 'id'>\<close>. A date is its time value in milliseconds; the metadata
  object is the list of its properties.
\<close>

record reading =
  stationId :: string
  aqi :: real
  pollutants :: Pollutants
  timestamp :: int
  source :: source
  metadata :: "(string \<times> string) list option"

text \<open>\<^verbatim>\<open>AQIReading\<close> with its \<^verbatim>\<open>id\<close>: the object \<^verbatim>\<open>{id: docRef.id, ...reading}\<close>.\<close>

record AQIReading =
  reading_id :: string
  reading_fields :: reading

record 'a FirestoreResult =
  success :: bool
  data :: "'a option"
  error :: "string option"

definition succeeded :: "'a \<Rightarrow> 'a FirestoreResult" where
  "succeeded x = \<lparr>success = True, data = Some x, error = None\<rparr>"

definition failed :: "string \<Rightarrow> 'a FirestoreResult" where
  "failed e = \<lparr>success = False, data = None, error = Some e\<rparr>"

subsection \<open>The two stores as the service sees them\<close>

text \<open>
  A value written to a store: a number, a string, the pollutant object, a Firestore
  \<^verbatim>\<open>Timestamp.fromDate(d)\<close>, the string \<^verbatim>\<open>d.toISOString()\<close> of a date, or the
  metadata object.
\<close>

datatype fvalue =
    Num real
  | Str string
  | Poll Pollutants
  | Timestamp int
  | ISOString int
  | Meta "(string \<times> string) list"

text \<open>
  The calls the service makes on the Firebase SDK, and its warnings, in the order they
  happen: \<^verbatim>\<open>addDoc(collection(firestore, c), data)\<close>, \<^verbatim>\<open>set(ref(database, path), data)\<close>
  and \<^verbatim>\<open>update(ref(database, path), data)\<close>. A property of a \<^verbatim>\<open>set\<close> argument may
  be \<^verbatim>\<open>undefined\<close> (\<open>None\<close>).
\<close>

datatype effect =
    AddDoc string "(string \<times> fvalue) list"
  | SetRef string "(string \<times> fvalue option) list"
  | UpdateRef string "(string \<times> fvalue) list"
  | Warn string

text \<open>
  What an SDK call raced against the 10 second timer does: it resolves in time, rejects in
  time, throws before returning a promise, or is still pending when the timer fires. The
  strings are \<^verbatim>\<open>String(error)\<close>.
\<close>

datatype 'a settled = Resolves 'a | Rejects string | ThrowsSync string | Pending

text \<open>\<^verbatim>\<open>await Promise.race([operation, timeoutPromise])\<close>: the value, or the error thrown
  at the \<^verbatim>\<open>await\<close> (\<open>Inl\<close>).\<close>

definition race_timeout :: "'a settled \<Rightarrow> string \<Rightarrow> string + 'a" where
  "race_timeout operation timeoutError =
     (case operation of
        Resolves x \<Rightarrow> Inr x
      | Rejects e \<Rightarrow> Inl e
      | ThrowsSync e \<Rightarrow> Inl e
      | Pending \<Rightarrow> Inl timeoutError)"

text \<open>
  The configuration: the three environment variables that \<^verbatim>\<open>isFirebaseConfigured\<close> and
  \<^verbatim>\<open>isRealtimeDatabaseConfigured\<close> read, and whether \<^verbatim>\<open>getFirebaseFirestore()\<close> and
  \<^verbatim>\<open>getFirebaseDatabase()\<close> return an instance rather than \<^verbatim>\<open>null\<close>.
\<close>

record firebase_env =
  FIREBASE_API_KEY :: "string option"
  FIREBASE_PROJECT_ID :: "string option"
  FIREBASE_DATABASE_URL :: "string option"
  firestore_instance :: bool
  database_instance :: bool

definition isFirebaseConfigured :: "firebase_env \<Rightarrow> bool" where
  "isFirebaseConfigured env \<longleftrightarrow>
     \<not> missing (FIREBASE_API_KEY env) \<and> \<not> missing (FIREBASE_PROJECT_ID env)"

definition isRealtimeDatabaseConfigured :: "firebase_env \<Rightarrow> bool" where
  "isRealtimeDatabaseConfigured env \<longleftrightarrow>
     \<not> missing (FIREBASE_API_KEY env) \<and> \<not> missing (FIREBASE_DATABASE_URL env)"

subsection \<open>\<^verbatim>\<open>syncToRealtimeDatabase\<close>\<close>

definition station_path :: "string \<Rightarrow> string" where
  "station_path sid = ''stations/'' @ sid"

definition dataToSync :: "reading \<Rightarrow> (string \<times> fvalue option) list" where
  "dataToSync r =
     [(''aqi'', Some (Num (aqi r))),
      (''pm25'', Some (Num (pm25 (pollutants r)))),
      (''pm10'', Some (Num (pm10 (pollutants r)))),
      (''co'', map_option Num (co (pollutants r))),
      (''no2'', map_option Num (no2 (pollutants r))),
      (''so2'', map_option Num (so2 (pollutants r))),
      (''o3'', map_option Num (o3 (pollutants r))),
      (''lastUpdated'', Some (ISOString (timestamp r))),
      (''source'', Some (Str (source_string (source r))))]"

text \<open>
  The function returns \<open>Inr ()\<close>, or \<open>Inl e\<close> for an exception that leaves it, together
  with its effects. The \<^verbatim>\<open>try\<close> block holds the \<^verbatim>\<open>set\<close> call and the race; its
  \<^verbatim>\<open>catch\<close> warns and does not rethrow.
\<close>

definition syncToRealtimeDatabase ::
  "firebase_env \<Rightarrow> unit settled \<Rightarrow> string \<Rightarrow> reading \<Rightarrow> (string + unit) \<times> effect list" where
  "syncToRealtimeDatabase env setPromise sid r =
     (if \<not> isRealtimeDatabaseConfigured env
      then (Inr (), [Warn ''Realtime Database not configured, skipping sync''])
      else if \<not> database_instance env
      then (Inr (), [Warn ''Could not get Firebase Database instance''])
      else
        (case race_timeout setPromise ''Error: Realtime Database sync timeout after 10 seconds'' of
           Inr u \<Rightarrow> (Inr (), [SetRef (station_path sid) (dataToSync r)])
         | Inl e \<Rightarrow>
             (Inr (), [SetRef (station_path sid) (dataToSync r),
                       Warn (''Failed to sync (non-blocking): '' @ e)])))"

subsection \<open>\<^verbatim>\<open>saveAQIReading\<close> and \<^verbatim>\<open>updateAQIData\<close>\<close>

text \<open>The document: the five fixed fields, and \<^verbatim>\<open>metadata\<close> only if the reading has a
  metadata object with at least one key.\<close>

definition docData :: "reading \<Rightarrow> (string \<times> fvalue) list" where
  "docData r =
     [(''stationId'', Str (stationId r)),
      (''aqi'', Num (aqi r)),
      (''pollutants'', Poll (pollutants r)),
      (''timestamp'', Timestamp (timestamp r)),
      (''source'', Str (source_string (source r)))]
     @ (case metadata r of
          None \<Rightarrow> []
        | Some m \<Rightarrow> if length m > 0 then [(''metadata'', Meta m)] else [])"

text \<open>
  \<open>addDoc\<close> is what the Firestore write does (resolving with the id of the new document),
  \<open>setPromise\<close> what the Realtime Database write does. Whatever is thrown inside the
  \<^verbatim>\<open>try\<close> block, by the race or by \<^verbatim>\<open>syncToRealtimeDatabase\<close>, becomes a failure
  result.
\<close>

definition saveAQIReading ::
  "firebase_env \<Rightarrow> string settled \<Rightarrow> unit settled \<Rightarrow> reading
     \<Rightarrow> AQIReading FirestoreResult \<times> effect list" where
  "saveAQIReading env addDoc setPromise r =
     (if \<not> isFirebaseConfigured env then (failed ''Firebase not configured'', [])
      else if \<not> firestore_instance env then (failed ''Firestore not available'', [])
      else
        (case race_timeout addDoc ''Error: Firestore operation timed out after 10000ms'' of
           Inl e \<Rightarrow> (failed e, [AddDoc ''readings'' (docData r)])
         | Inr docRef_id \<Rightarrow>
             (let savedReading = \<lparr>reading_id = docRef_id, reading_fields = r\<rparr>;
                  (synced, effects) = syncToRealtimeDatabase env setPromise (stationId r) r
              in case synced of
                   Inl e \<Rightarrow> (failed e, AddDoc ''readings'' (docData r) # effects)
                 | Inr u \<Rightarrow> (succeeded savedReading, AddDoc ''readings'' (docData r) # effects))))"

text \<open>The argument of \<^verbatim>\<open>updateAQIData\<close>.\<close>

record aqi_update =
  u_aqi :: real
  u_pollutants :: Pollutants
  u_source :: "source option"
  u_metadata :: "(string \<times> string) list option"

text \<open>\<open>now\<close> is the \<^verbatim>\<open>new Date()\<close> taken for the timestamp.\<close>

definition updateAQIData ::
  "firebase_env \<Rightarrow> string settled \<Rightarrow> unit settled \<Rightarrow> int \<Rightarrow> string \<Rightarrow> aqi_update
     \<Rightarrow> AQIReading FirestoreResult \<times> effect list" where
  "updateAQIData env addDoc setPromise now sid d =
     saveAQIReading env addDoc setPromise
       \<lparr>stationId = sid,
        aqi = u_aqi d,
        pollutants = u_pollutants d,
        timestamp = now,
        source = (case u_source d of None \<Rightarrow> Manual | Some s \<Rightarrow> s),
        metadata = u_metadata d\<rparr>"

subsection \<open>\<^verbatim>\<open>batchUpdateRealtimeDB\<close>\<close>

text \<open>An item of the batch; \<^verbatim>\<open>Partial<Pollutants>\<close> is the list of the properties given.\<close>

record batch_item =
  b_stationId :: string
  b_aqi :: real
  b_pollutants :: "(string \<times> real) list"

text \<open>
  What one \<^verbatim>\<open>update\<close> call of the batch does. There is no timer here: the write is
  carried out and its promise resolves, or it rejects at some time, or \<^verbatim>\<open>ref\<close> or
  \<^verbatim>\<open>update\<close> throws inside the \<^verbatim>\<open>async\<close> callback (a promise rejected from the
  start), or the promise never settles.
\<close>

datatype write_outcome = Written | RejectedAt nat string | Threw string | Unsettled

text \<open>A property assignment on an object: the value replaces that of an existing key in
  place, a new key goes to the end.\<close>

fun assign :: "(string \<times> 'v) list \<Rightarrow> string \<times> 'v \<Rightarrow> (string \<times> 'v) list" where
  "assign [] (k, v) = [(k, v)]"
| "assign ((k', v') # kvs) (k, v) =
     (if k' = k then (k, v) # kvs else (k', v') # assign kvs (k, v))"

text \<open>The object \<^verbatim>\<open>{aqi, ...pollutants, lastUpdated: new Date().toISOString()}\<close>.\<close>

definition batch_data :: "int \<Rightarrow> batch_item \<Rightarrow> (string \<times> fvalue) list" where
  "batch_data now item =
     foldl assign []
       ([(''aqi'', Num (b_aqi item))]
        @ map (\<lambda>(k, v). (k, Num v)) (b_pollutants item)
        @ [(''lastUpdated'', ISOString now)])"

text \<open>The Realtime Database: the children stored at each path. An \<^verbatim>\<open>update\<close> that is
  carried out writes the given children and leaves the others.\<close>

type_synonym rtdb = "string \<Rightarrow> (string \<times> fvalue) list"

definition apply_update :: "rtdb \<Rightarrow> string \<Rightarrow> (string \<times> fvalue) list \<Rightarrow> rtdb" where
  "apply_update db path values = db (path := foldl assign (db path) values)"

text \<open>
  \<^verbatim>\<open>updates.map(async (item) => update(ref(...), {...}))\<close>: the callback runs for every
  item, in order, and issues its \<^verbatim>\<open>update\<close>. \<open>world i\<close> is what call number \<open>i\<close> does
  and \<open>clock i\<close> the date taken for it. The result is the list of the calls issued and the
  database once the writes that are carried out have completed.
\<close>

fun issue_updates ::
  "(nat \<Rightarrow> write_outcome) \<Rightarrow> (nat \<Rightarrow> int) \<Rightarrow> nat \<Rightarrow> batch_item list \<Rightarrow> rtdb
     \<Rightarrow> effect list \<times> rtdb" where
  "issue_updates world clock i [] db = ([], db)"
| "issue_updates world clock i (item # items) db =
     (let path = station_path (b_stationId item);
          values = batch_data (clock i) item;
          db' = (if world i = Written then apply_update db path values else db);
          (calls, db'') = issue_updates world clock (Suc i) items db'
      in (UpdateRef path values # calls, db''))"

text \<open>
  \<^verbatim>\<open>await Promise.all(updatePromises)\<close>: it throws the error of the promise that rejects
  first, returns when all have resolved, and otherwise never settles (\<open>None\<close>). A promise
  that threw in its callback is rejected before any other; among the promises that reject
  later the earliest time wins.
\<close>

fun earliest_rejection :: "write_outcome list \<Rightarrow> (nat \<times> string) option \<Rightarrow> (nat \<times> string) option" where
  "earliest_rejection [] best = best"
| "earliest_rejection (RejectedAt t e # os) best =
     earliest_rejection os
       (case best of
          None \<Rightarrow> Some (Suc t, e)
        | Some (t', e') \<Rightarrow> if Suc t < t' then Some (Suc t, e) else Some (t', e'))"
| "earliest_rejection (Threw e # os) best =
     earliest_rejection os
       (case best of
          None \<Rightarrow> Some (0, e)
        | Some (t', e') \<Rightarrow> if 0 < t' then Some (0, e) else Some (t', e'))"
| "earliest_rejection (x # os) best = earliest_rejection os best"

definition promise_all :: "write_outcome list \<Rightarrow> (string + unit) option" where
  "promise_all outcomes =
     (case earliest_rejection outcomes None of
        Some (t, e) \<Rightarrow> Some (Inl e)
      | None \<Rightarrow> if list_all (\<lambda>x. x = Written) outcomes then Some (Inr ()) else None)"

text \<open>The run of \<^verbatim>\<open>batchUpdateRealtimeDB\<close>: its result (\<open>None\<close> if it never returns),
  the calls it issued and the database afterwards.\<close>

definition batchUpdateRealtimeDB ::
  "firebase_env \<Rightarrow> (nat \<Rightarrow> write_outcome) \<Rightarrow> (nat \<Rightarrow> int) \<Rightarrow> rtdb \<Rightarrow> batch_item list
     \<Rightarrow> unit FirestoreResult option \<times> effect list \<times> rtdb" where
  "batchUpdateRealtimeDB env world clock db updates =
     (if \<not> isRealtimeDatabaseConfigured env
      then (Some (failed ''Realtime Database not configured''), [], db)
      else if \<not> database_instance env
      then (Some (failed ''Database not available''), [], db)
      else
        (let (calls, db') = issue_updates world clock 0 updates db
         in case promise_all (map world [0..<length updates]) of
              None \<Rightarrow> (None, calls, db')
            | Some (Inl e) \<Rightarrow> (Some (failed e), calls, db')
            | Some (Inr u) \<Rightarrow>
                (Some \<lparr>success = True, data = None, error = None\<rparr>, calls, db')))"

text \<open>A configured environment and the reading of the specification's example.\<close>

definition configured_env :: firebase_env where
  "configured_env =
     \<lparr>FIREBASE_API_KEY = Some ''key'', FIREBASE_PROJECT_ID = Some ''pranamesh'',
      FIREBASE_DATABASE_URL = Some ''https://pranamesh.firebaseio.com'',
      firestore_instance = True, database_instance = True\<rparr>"



text \<open>A batch of three stations in which the second write throws, on an empty database.\<close>

definition sample_batch :: "batch_item list" where
  "sample_batch =
     [\<lparr>b_stationId = ''a'', b_aqi = 101, b_pollutants = [(''pm25'', 61)]\<rparr>,
      \<lparr>b_stationId = ''b'', b_aqi = 102, b_pollutants = [(''pm25'', 62)]\<rparr>,
      \<lparr>b_stationId = ''c'', b_aqi = 103, b_pollutants = [(''pm25'', 63)]\<rparr>]"

definition sample_world :: "nat \<Rightarrow> write_outcome" where
  "sample_world i = (if i = 1 then Threw ''Error: update failed'' else Written)"

definition sample_clock :: "nat \<Rightarrow> int" where
  "sample_clock i = 1735689600000"

definition empty_db :: rtdb where
  "empty_db path = []"

subsection \<open>The argument check of \<^verbatim>\<open>set\<close>\<close>






section \<open>The scraper: \<^verbatim>\<open>scrapeAQIIn\<close>\<close>

subsection \<open>Extraction from the page\<close>

text \<open>
  \<^verbatim>\<open>extractNumber\<close>: the first run of ASCII digits of the text, read in base ten, and 0
  when there is none. \<^verbatim>\<open>parseInt\<close> returns a double; a run that denotes a number of 600
  or more stays at 600 or more as a double, so the tests made on the result agree with the
  ones made here on the exact number.
\<close>

definition is_digit :: "char \<Rightarrow> bool" where
  "is_digit c \<longleftrightarrow> c \<in> set ''0123456789''"

definition parse_decimal :: "string \<Rightarrow> nat" where
  "parse_decimal ds = foldl (\<lambda>n c. 10 * n + (of_char c - 48)) 0 ds"

definition extractNumber :: "string \<Rightarrow> nat" where
  "extractNumber text =
     (let match = takeWhile is_digit (dropWhile (\<lambda>c. \<not> is_digit c) text)
      in if match = [] then 0 else parse_decimal match)"

text \<open>
  What the callback of \<^verbatim>\<open>page.evaluate\<close> finds on the page: the text content of the
  elements selected by \<^verbatim>\<open>[class*="aqi"], [class*="AQI"]\<close>; for each regular expression
  tried on \<^verbatim>\<open>document.body.innerText\<close> the number captured (\<open>None\<close> without a match;
  for the two patterns with alternatives, the group that matched); and for each city link
  the number and the trimmed name captured from its text.
\<close>

record page_content =
  aqiElements :: "string list"
  pm25Match :: "nat option"
  pm25Alt :: "nat option"
  pm10Match :: "nat option"
  tempMatch :: "nat option"
  humMatch :: "nat option"
  windMatch :: "nat option"
  cityLinks :: "(nat option \<times> string option) list"

text \<open>The object returned by the callback of \<^verbatim>\<open>page.evaluate\<close>.\<close>

record page_data =
  delhiAqi :: nat
  pm25 :: nat
  pm10 :: nat
  temperature :: nat
  humidity :: nat
  windSpeed :: nat
  cities :: "(string \<times> nat) list"

text \<open>\<^verbatim>\<open>let x = 0; if (m) x = parseInt(m[1], 10)\<close>\<close>

definition matched_or_zero :: "nat option \<Rightarrow> nat" where
  "matched_or_zero m = (case m of None \<Rightarrow> 0 | Some v \<Rightarrow> v)"

definition evaluate :: "page_content \<Rightarrow> page_data" where
  "evaluate page =
     \<lparr>delhiAqi =
        foldl (\<lambda>delhiAqi text.
                 let num = extractNumber text
                 in if num > 50 \<and> num < 600 \<and> num > delhiAqi then num else delhiAqi)
              0 (aqiElements page),
      pm25 =
        (let first = matched_or_zero (pm25Match page)
         in case pm25Alt page of
              Some alt \<Rightarrow> if first = 0 then alt else first
            | None \<Rightarrow> first),
      pm10 = matched_or_zero (pm10Match page),
      temperature = matched_or_zero (tempMatch page),
      humidity = matched_or_zero (humMatch page),
      windSpeed = matched_or_zero (windMatch page),
      cities =
        concat (map (\<lambda>link.
                  case link of
                    (Some cityAqi, Some cityName) \<Rightarrow>
                      if cityAqi > 0 \<and> cityAqi < 600 \<and> length cityName > 2
                      then [(cityName, cityAqi)] else []
                  | _ \<Rightarrow> [])
               (cityLinks page))\<rparr>"

subsection \<open>The synthesized values\<close>

text \<open>
  \<^verbatim>\<open>Math.round(n * c)\<close> for a non-negative integer \<open>n\<close> below \<open>2^53\<close> and the double
  constant \<open>c = m / 2^s\<close> with a 53-bit mantissa \<open>m\<close>, in exact integer arithmetic. The
  product \<open>n * m / 2^s\<close> is rounded to the nearest double, that is to 53 significant
  bits with a tie going to the even mantissa; \<^verbatim>\<open>Math.round\<close> then takes the nearest
  integer with a tie going up.
\<close>

fun bit_length :: "nat \<Rightarrow> nat" where
  "bit_length n = (if n = 0 then 0 else Suc (bit_length (n div 2)))"

text \<open>The numerator over \<open>2^s\<close> of the double nearest to \<open>N / 2^s\<close>.\<close>

definition round_to_double :: "nat \<Rightarrow> nat" where
  "round_to_double N =
     (if bit_length N \<le> 53 then N
      else
        (let sh = bit_length N - 53;
             q = N div 2 ^ sh;
             r = N mod 2 ^ sh;
             half = 2 ^ (sh - 1)
         in (if r > half \<or> (r = half \<and> odd q) then q + 1 else q) * 2 ^ sh))"

definition round_product :: "nat \<Rightarrow> nat \<Rightarrow> nat \<Rightarrow> nat" where
  "round_product n m s = (2 * round_to_double (n * m) + 2 ^ s) div 2 ^ (s + 1)"

text \<open>The doubles \<^verbatim>\<open>0.7\<close> \<open>= 6305039478318694 / 2^53\<close> and \<^verbatim>\<open>1.1\<close>
  \<open>= 4953959590107546 / 2^52\<close>.\<close>

definition times_0_7_rounded :: "nat \<Rightarrow> nat" where
  "times_0_7_rounded n = round_product n 6305039478318694 53"

definition times_1_1_rounded :: "nat \<Rightarrow> nat" where
  "times_1_1_rounded n = round_product n 4953959590107546 52"

text \<open>\<^verbatim>\<open>a || b\<close> on numbers: \<open>b\<close> when \<open>a\<close> is 0.\<close>

definition or_num :: "nat \<Rightarrow> nat \<Rightarrow> nat" where
  "or_num a b = (if a = 0 then b else a)"

text \<open>\<^verbatim>\<open>AQIScrapedData\<close>; \<open>lastUpdated\<close> is the date whose ISO string the field holds.\<close>

record AQIScrapedData =
  delhiAqi :: nat
  pm25 :: nat
  pm10 :: nat
  temperature :: nat
  humidity :: nat
  windSpeed :: nat
  lastUpdated :: int
  cities :: "(string \<times> nat) list"

text \<open>The object \<^verbatim>\<open>result\<close> built from the extracted data at the date \<open>now\<close>.\<close>

definition build_result :: "page_data \<Rightarrow> int \<Rightarrow> AQIScrapedData" where
  "build_result d now =
     \<lparr>delhiAqi = page_data.delhiAqi d,
      pm25 = or_num (page_data.pm25 d) (times_0_7_rounded (page_data.delhiAqi d)),
      pm10 = or_num (page_data.pm10 d) (times_1_1_rounded (page_data.delhiAqi d)),
      temperature = or_num (page_data.temperature d) 15,
      humidity = or_num (page_data.humidity d) 70,
      windSpeed = or_num (page_data.windSpeed d) 10,
      lastUpdated = now,
      cities = page_data.cities d\<rparr>"

subsection \<open>The cache and the attempts\<close>

text \<open>The module variable \<^verbatim>\<open>cachedScrapedData\<close>: \<^verbatim>\<open>null\<close> or a value with its
  capture time.\<close>

record cache_entry =
  cache_data :: "AQIScrapedData option"
  cache_timestamp :: int

type_synonym cache = "cache_entry option"

definition CACHE_DURATION :: int where
  "CACHE_DURATION = 5 * 60 * 1000"

definition maxRetries :: nat where
  "maxRetries = 3"

text \<open>The calls made on the browser and the delays, in the order they happen.\<close>

datatype scrape_event =
    GetBrowser
  | NewContext
  | NewPage
  | ApplyAdvancedStealth
  | Goto string
  | HumanDelay nat nat
  | WaitForCloudflare
  | SimulateHumanBehavior
  | Evaluate
  | PageClose
  | ContextClose

text \<open>The awaited call of the \<^verbatim>\<open>try\<close> block at which an attempt may throw before it has
  extracted anything.\<close>

datatype fail_point =
    AtGetBrowser | AtNewContext | AtNewPage | AtStealth | AtGoto | AtCloudflare
  | AtSimulate | AtEvaluate

text \<open>What \<^verbatim>\<open>await page.close(); await context.close()\<close> does.\<close>

datatype close_outcome = Closed | PageCloseThrows | ContextCloseThrows

text \<open>
  What the browser and the site do in one attempt: a call throws; or
  \<^verbatim>\<open>waitForCloudflare\<close> returns \<^verbatim>\<open>false\<close>; or \<^verbatim>\<open>page.evaluate\<close> runs its callback
  on the page. With the page come the dates read by \<^verbatim>\<open>new Date()\<close> and
  \<^verbatim>\<open>Date.now()\<close> should a result be built, and what closing the page and the context
  does.
\<close>

datatype attempt_script =
    Fails fail_point
  | Blocked close_outcome
  | Extracts page_content int int close_outcome

definition dashboard_url :: string where
  "dashboard_url = ''https://www.aqi.in/dashboard/india/delhi''"

text \<open>The events of an attempt up to and including the call that throws, and whether
  \<^verbatim>\<open>page\<close> has been assigned by then.\<close>

definition up_to_cloudflare :: "scrape_event list" where
  "up_to_cloudflare =
     [GetBrowser, NewContext, NewPage, ApplyAdvancedStealth, Goto dashboard_url,
      HumanDelay 2000 4000, WaitForCloudflare]"

fun events_until :: "fail_point \<Rightarrow> scrape_event list" where
  "events_until AtGetBrowser = [GetBrowser]"
| "events_until AtNewContext = [GetBrowser, NewContext]"
| "events_until AtNewPage = [GetBrowser, NewContext, NewPage]"
| "events_until AtStealth = [GetBrowser, NewContext, NewPage, ApplyAdvancedStealth]"
| "events_until AtGoto =
     [GetBrowser, NewContext, NewPage, ApplyAdvancedStealth, Goto dashboard_url]"
| "events_until AtCloudflare = up_to_cloudflare"
| "events_until AtSimulate = up_to_cloudflare @ [SimulateHumanBehavior]"
| "events_until AtEvaluate = up_to_cloudflare @ [SimulateHumanBehavior, Evaluate]"

fun page_assigned :: "fail_point \<Rightarrow> bool" where
  "page_assigned AtGetBrowser = False"
| "page_assigned AtNewContext = False"
| "page_assigned AtNewPage = False"
| "page_assigned p = True"

fun close_events :: "close_outcome \<Rightarrow> scrape_event list" where
  "close_events Closed = [PageClose, ContextClose]"
| "close_events PageCloseThrows = [PageClose]"
| "close_events ContextCloseThrows = [PageClose, ContextClose]"

text \<open>
  How the \<^verbatim>\<open>try\<close> block of one attempt ends: it returns the result, it reaches a
  \<^verbatim>\<open>continue\<close>, or it throws.
\<close>

datatype try_end = Returns AQIScrapedData | Continues | Throws

text \<open>The state an attempt works on: whether the variable \<^verbatim>\<open>page\<close> is non-null, and
  the cache.\<close>

record scrape_state =
  page_open :: bool
  cachedScrapedData :: cache

text \<open>
  The \<^verbatim>\<open>try\<close> block. After a challenge timeout and after an extraction with index value
  0 the page and the context are closed, \<^verbatim>\<open>page\<close> is reset and the loop continues.
  Otherwise the result is built and stored in the cache, and then the page and the context
  are closed. A close that throws leaves the block at that point.
\<close>

fun try_block :: "attempt_script \<Rightarrow> scrape_state \<Rightarrow> try_end \<times> scrape_state \<times> scrape_event list" where
  "try_block (Fails p) st =
     (Throws, st\<lparr>page_open := page_open st \<or> page_assigned p\<rparr>, events_until p)"
| "try_block (Blocked c) st =
     (if c = Closed
      then (Continues, st\<lparr>page_open := False\<rparr>, up_to_cloudflare @ close_events c)
      else (Throws, st\<lparr>page_open := True\<rparr>, up_to_cloudflare @ close_events c))"
| "try_block (Extracts page builtAt cachedAt c) st =
     (let d = evaluate page;
          events = up_to_cloudflare @ [SimulateHumanBehavior, Evaluate] @ close_events c
      in if page_data.delhiAqi d = 0
         then
           (if c = Closed
            then (Continues, st\<lparr>page_open := False\<rparr>, events)
            else (Throws, st\<lparr>page_open := True\<rparr>, events))
         else
           (let result = build_result d builtAt;
                st' = st\<lparr>page_open := True,
                         cachedScrapedData :=
                           Some \<lparr>cache_data = Some result, cache_timestamp = cachedAt\<rparr>\<rparr>
            in if c = Closed then (Returns result, st', events) else (Throws, st', events)))"

text \<open>How one iteration of the loop ends.\<close>

datatype iteration_end = Return "AQIScrapedData option" | NextAttempt

text \<open>
  One iteration: the \<^verbatim>\<open>try\<close> block and, if it throws, the \<^verbatim>\<open>catch\<close> block, which
  closes the page if \<^verbatim>\<open>page\<close> is non-null, returns \<^verbatim>\<open>null\<close> on the last attempt and
  otherwise waits 3 to 5 seconds.
\<close>

definition iteration ::
  "attempt_script \<Rightarrow> nat \<Rightarrow> scrape_state \<Rightarrow> iteration_end \<times> scrape_state \<times> scrape_event list" where
  "iteration script attempt st =
     (case try_block script st of
        (Returns result, st', events) \<Rightarrow> (Return (Some result), st', events)
      | (Continues, st', events) \<Rightarrow> (NextAttempt, st', events)
      | (Throws, st', events) \<Rightarrow>
          (let events' = events @ (if page_open st' then [PageClose] else [])
           in if attempt = maxRetries then (Return None, st', events')
              else (NextAttempt, st', events' @ [HumanDelay 3000 5000])))"

text \<open>The loop \<^verbatim>\<open>for (let attempt = 1; attempt <= maxRetries; attempt++)\<close> and the
  \<^verbatim>\<open>return null\<close> after it. \<open>world k\<close> is what happens in attempt \<open>k\<close>.\<close>

function attempts ::
  "(nat \<Rightarrow> attempt_script) \<Rightarrow> nat \<Rightarrow> scrape_state \<Rightarrow> scrape_event list
     \<Rightarrow> AQIScrapedData option \<times> scrape_state \<times> scrape_event list" where
  "attempts world attempt st trace =
     (if attempt \<le> maxRetries
      then
        (case iteration (world attempt) attempt st of
           (Return r, st', events) \<Rightarrow> (r, st', trace @ events)
         | (NextAttempt, st', events) \<Rightarrow> attempts world (Suc attempt) st' (trace @ events))
      else (None, st, trace))"
  by pat_completeness auto
termination
  by (relation "measure (\<lambda>(world, attempt, st, trace). Suc maxRetries - attempt)") auto

text \<open>
  \<^verbatim>\<open>scrapeAQIIn\<close>: \<open>now\<close> is the \<^verbatim>\<open>Date.now()\<close> of the cache check. The function
  returns its result, the cache afterwards and the events of the call.
\<close>

definition cache_fresh :: "cache \<Rightarrow> int \<Rightarrow> bool" where
  "cache_fresh c now =
     (case c of None \<Rightarrow> False | Some e \<Rightarrow> now - cache_timestamp e < CACHE_DURATION)"

definition scrapeAQIIn ::
  "cache \<Rightarrow> int \<Rightarrow> (nat \<Rightarrow> attempt_script)
     \<Rightarrow> AQIScrapedData option \<times> cache \<times> scrape_event list" where
  "scrapeAQIIn c now world =
     (if cache_fresh c now
      then (cache_data (the c), c, [])
      else
        (case attempts world 1 \<lparr>page_open = False, cachedScrapedData = c\<rparr> [] of
           (r, st, trace) \<Rightarrow> (r, cachedScrapedData st, trace)))"

text \<open>Sample pages: one without any index value, one showing 287.\<close>

definition empty_page :: page_content where
  "empty_page =
     \<lparr>aqiElements = [''AQI'', ''--''], pm25Match = None, pm25Alt = None, pm10Match = None,
      tempMatch = None, humMatch = None, windMatch = None, cityLinks = []\<rparr>"

definition delhi_page :: page_content where
  "delhi_page =
     \<lparr>aqiElements = [''Live AQI'', ''287 Severe'', ''AQI 45''], pm25Match = Some 196,
      pm25Alt = None, pm10Match = None, tempMatch = Some 0, humMatch = None,
      windMatch = Some 12, cityLinks = [(Some 301, Some ''Noida''), (Some 7, None)]\<rparr>"

definition stale_cache :: cache where
  "stale_cache =
     Some \<lparr>cache_data =
             Some \<lparr>delhiAqi = 150, pm25 = 90, pm10 = 160, temperature = 20, humidity = 40,
                   windSpeed = 8, lastUpdated = 1735680000000, cities = []\<rparr>,
           cache_timestamp = 1735680000000\<rparr>"

text \<open>The events of an attempt that extracts the index value 0, and of one whose navigation
  throws, without the delay that may follow.\<close>

definition zero_attempt_events :: "scrape_event list" where
  "zero_attempt_events =
     [GetBrowser, NewContext, NewPage, ApplyAdvancedStealth, Goto dashboard_url,
      HumanDelay 2000 4000, WaitForCloudflare, SimulateHumanBehavior, Evaluate, PageClose,
      ContextClose]"

definition goto_failure_events :: "scrape_event list" where
  "goto_failure_events =
     [GetBrowser, NewContext, NewPage, ApplyAdvancedStealth, Goto dashboard_url, PageClose]"

text \<open>An attempt that does not get as far as a non-zero index value.\<close>

definition extracts_nothing :: "attempt_script \<Rightarrow> bool" where
  "extracts_nothing script =
     (case script of
        Extracts page builtAt cachedAt c \<Rightarrow> page_data.delhiAqi (evaluate page) = 0
      | _ \<Rightarrow> True)"

text \<open>
  The nearest integer to \<open>k / 10\<close>, a tie going up: with \<open>k = 7 * n\<close> it is the rounding of
  \<open>n * 0.7\<close>, and with \<open>k = 11 * n\<close> that of \<open>n * 1.1\<close>, in exact arithmetic.
\<close>

definition round_tenths :: "nat \<Rightarrow> nat" where
  "round_tenths k = (k + 5) div 10"

text \<open>
  The index values between 51 and 599 at which \<open>n * 0.7\<close> is a tie \<open>j + 1/2\<close> in exact
  arithmetic while the double product \<^verbatim>\<open>n * 0.7\<close> is the double just below it, so that
  \<^verbatim>\<open>Math.round\<close> gives \<open>j\<close>: for instance \<^verbatim>\<open>365 * 0.7\<close> is
  \<^verbatim>\<open>255.49999999999997\<close>.
\<close>

definition ties_rounded_down :: "nat list" where
  "ties_rounded_down = [85, 165, 175, 325, 335, 345, 355, 365]"

text \<open>A sample page showing the index value 365 and nothing else.\<close>

definition bare_page :: page_content where
  "bare_page =
     \<lparr>aqiElements = [''AQI 365''], pm25Match = None, pm25Alt = None, pm10Match = None,
      tempMatch = None, humMatch = None, windMatch = None, cityLinks = []\<rparr>"

text \<open>
  The synthesized values in exact integer arithmetic: the rounding of \<open>n * 0.7\<close>, one less at
  the ties above, and the rounding of \<open>n * 1.1\<close>.
\<close>

definition round_0_7 :: "nat \<Rightarrow> nat" where
  "round_0_7 n =
     (if n \<in> set ties_rounded_down then round_tenths (7 * n) - 1 else round_tenths (7 * n))"

definition round_1_1 :: "nat \<Rightarrow> nat" where
  "round_1_1 n = round_tenths (11 * n)"

text \<open>
  The rounding of \<open>N\<close> to 53 significant bits when \<open>N\<close> has \<open>53 + sh\<close> bits, and
  \<^verbatim>\<open>Math.round\<close> of the product for such an \<open>N = n * m\<close>: the two branches of
  \<open>round_to_double\<close> and \<open>round_product\<close> with the bit length given.
\<close>

definition round_at :: "nat \<Rightarrow> nat \<Rightarrow> nat" where
  "round_at sh N =
     (let q = N div 2 ^ sh;
          r = N mod 2 ^ sh;
          half = 2 ^ (sh - 1)
      in (if r > half \<or> (r = half \<and> odd q) then q + 1 else q) * 2 ^ sh)"

definition product_at :: "nat \<Rightarrow> nat \<Rightarrow> nat \<Rightarrow> nat \<Rightarrow> nat" where
  "product_at sh m s n = (2 * round_at sh (n * m) + 2 ^ s) div 2 ^ (s + 1)"

section \<open>Validation of a submitted reading\<close>

lemma typeof_string_iff: "typeof v = ''string'' \<longleftrightarrow> (\<exists>s. v = Some (JStr s))"
  by (cases v rule: typeof.cases) auto

lemma typeof_number_iff: "typeof v = ''number'' \<longleftrightarrow> (\<exists>n. v = Some (JNum n))"
  by (cases v rule: typeof.cases) auto

lemma in_range_iff:
  "(\<not> num_lt (Some (JNum n)) 0 \<and> \<not> num_gt (Some (JNum n)) 500) \<longleftrightarrow> (\<exists>x. n = Fin x \<and> 0 \<le> x \<and> x \<le> 500)"
  by (cases n) auto

lemma getprop_Some_object: "getprop p k = Inr (Some v) \<Longrightarrow> \<exists>kvs. p = JObj kvs"
  by (cases p) auto

lemma getprop_of_Some: "getprop_of q k = Inr (Some v) \<Longrightarrow> \<exists>p. q = Some p \<and> getprop p k = Inr (Some v)"
  by (cases q) auto

lemma spec_valid_accepted:
  assumes "spec_valid_reading v_data"
  shows "validateReading v_data = Inr None"
proof -
  from assms obtain s x p a b where
    sid: "getprop v_data ''stationId'' = Inr (Some (JStr s))" "s \<noteq> []" and
    v_aqi: "getprop v_data ''aqi'' = Inr (Some (JNum (Fin x)))" "0 \<le> x" "x \<le> 500" and
    pol: "getprop v_data ''pollutants'' = Inr (Some p)" and
    pm: "getprop p ''pm25'' = Inr (Some (JNum a))" "getprop p ''pm10'' = Inr (Some (JNum b))"
    unfolding spec_valid_reading_def by blast
  from pm(1) obtain kvs where p: "p = JObj kvs"
    using getprop_Some_object by blast
  show ?thesis
    using sid v_aqi pol pm by (simp add: validateReading_def p)
qed

lemma accepted_spec_valid:
  assumes "validateReading v_data = Inr None"
  shows "spec_valid_reading v_data"
proof -
  from assms obtain v_stationId where
    sid: "getprop v_data ''stationId'' = Inr v_stationId"
    by (cases "getprop v_data ''stationId''") (auto simp: validateReading_def)
  from assms sid have sid_ok: "truthy v_stationId" "typeof v_stationId = ''string''"
    by (auto simp: validateReading_def split: if_splits)
  from assms sid sid_ok obtain v_aqi where
    v_aqi: "getprop v_data ''aqi'' = Inr v_aqi"
    by (cases "getprop v_data ''aqi''") (auto simp: validateReading_def)
  from assms sid sid_ok v_aqi have aqi_ok:
    "typeof v_aqi = ''number''" "\<not> num_lt v_aqi 0" "\<not> num_gt v_aqi 500"
    by (auto simp: validateReading_def split: if_splits)
  from assms sid sid_ok v_aqi aqi_ok obtain v_pollutants where
    pol: "getprop v_data ''pollutants'' = Inr v_pollutants"
    by (cases "getprop v_data ''pollutants''") (auto simp: validateReading_def)
  from assms sid sid_ok v_aqi aqi_ok pol have pol_ok:
    "truthy v_pollutants" "typeof v_pollutants = ''object''"
    by (auto simp: validateReading_def split: if_splits)
  from assms sid sid_ok v_aqi aqi_ok pol pol_ok obtain v_pm25 where
    v_pm25: "getprop_of v_pollutants ''pm25'' = Inr v_pm25"
    by (cases "getprop_of v_pollutants ''pm25''") (auto simp: validateReading_def)
  from assms sid sid_ok v_aqi aqi_ok pol pol_ok v_pm25 have pm25_ok: "typeof v_pm25 = ''number''"
    by (auto simp: validateReading_def split: if_splits)
  from assms sid sid_ok v_aqi aqi_ok pol pol_ok v_pm25 pm25_ok obtain v_pm10 where
    v_pm10: "getprop_of v_pollutants ''pm10'' = Inr v_pm10"
    by (cases "getprop_of v_pollutants ''pm10''") (auto simp: validateReading_def)
  from assms sid sid_ok v_aqi aqi_ok pol pol_ok v_pm25 pm25_ok v_pm10 have pm10_ok: "typeof v_pm10 = ''number''"
    by (auto simp: validateReading_def split: if_splits)
  from sid_ok(2) obtain s where s: "v_stationId = Some (JStr s)"
    unfolding typeof_string_iff by (rule exE)
  from sid_ok(1) s have s_ne: "s \<noteq> []"
    by simp
  from aqi_ok(1) obtain n where n: "v_aqi = Some (JNum n)"
    unfolding typeof_number_iff by (rule exE)
  from aqi_ok(2,3) have "\<exists>x. n = Fin x \<and> 0 \<le> x \<and> x \<le> 500"
    unfolding n by (simp only: in_range_iff [symmetric] simp_thms)
  then obtain x where x: "n = Fin x" "0 \<le> x" "x \<le> 500"
    by (elim exE conjE)
  from pm25_ok obtain a where a: "v_pm25 = Some (JNum a)"
    unfolding typeof_number_iff by (rule exE)
  from pm10_ok obtain b where b: "v_pm10 = Some (JNum b)"
    unfolding typeof_number_iff by (rule exE)
  from v_pm25 a obtain p where p: "v_pollutants = Some p" "getprop p ''pm25'' = Inr (Some (JNum a))"
    using getprop_of_Some by blast
  from v_pm10 b p have p10: "getprop p ''pm10'' = Inr (Some (JNum b))"
    by simp
  have 1: "\<exists>s. getprop v_data ''stationId'' = Inr (Some (JStr s)) \<and> s \<noteq> []"
    using sid s s_ne by simp
  have 2: "\<exists>x. getprop v_data ''aqi'' = Inr (Some (JNum (Fin x))) \<and> 0 \<le> x \<and> x \<le> 500"
    using v_aqi n x by simp
  have 3: "\<exists>p a b. getprop v_data ''pollutants'' = Inr (Some p)
        \<and> getprop p ''pm25'' = Inr (Some (JNum a)) \<and> getprop p ''pm10'' = Inr (Some (JNum b))"
    using pol p p10 by (intro exI [of _ p] exI [of _ a] exI [of _ b]) simp
  show ?thesis
    unfolding spec_valid_reading_def using 1 2 3 by (intro conjI)
qed

lemma getprop_not_null: "b \<noteq> JNull \<Longrightarrow> \<exists>v. getprop b k = Inr v"
  by (cases b) auto

lemma getprop_of_truthy: "truthy q \<Longrightarrow> \<exists>v. getprop_of q k = Inr v"
  by (cases q rule: truthy.cases) auto

lemma validateReading_no_throw:
  assumes "b \<noteq> JNull"
  shows "\<exists>r. validateReading b = Inr r"
proof -
  obtain v_stationId v_aqi v_pollutants where g:
    "getprop b ''stationId'' = Inr v_stationId" "getprop b ''aqi'' = Inr v_aqi"
    "getprop b ''pollutants'' = Inr v_pollutants"
    using getprop_not_null [OF assms] by metis
  show ?thesis
  proof (cases "truthy v_pollutants")
    case True
    then obtain v_pm25 v_pm10 where
      "getprop_of v_pollutants ''pm25'' = Inr v_pm25" "getprop_of v_pollutants ''pm10'' = Inr v_pm10"
      using getprop_of_truthy by metis
    with g show ?thesis by (simp add: validateReading_def)
  next
    case False
    with g show ?thesis by (simp add: validateReading_def)
  qed
qed

lemma single_branch:
  assumes "single_reading_request req b"
  shows "POST req = (case single_response req b of Inl e \<Rightarrow> server_error | Inr r \<Rightarrow> r)"
proof -
  from assms have b: "body req = Some b" "\<not> unauthorized req" "b \<noteq> JNull"
    and nb: "(case getprop b ''readings'' of Inr (Some (JArr rs)) \<Rightarrow> False | _ \<Rightarrow> True)"
    by (simp_all add: single_reading_request_def)
  from b(3) obtain readings where r: "getprop b ''readings'' = Inr readings"
    using getprop_not_null by blast
  from nb r have "\<not> isArray readings"
    by (cases readings rule: isArray.cases) auto
  with b r show ?thesis
    by (simp add: POST_def POST_try_def bind_err_def)
qed

text \<open>
  Claim C2. For a request that reaches the single-reading branch of \<^verbatim>\<open>POST\<close>,
  \<^verbatim>\<open>validateReading\<close> accepts the reading if and only if the station id is a non-empty
  string, the index value is a number in the closed range from 0 to 500, and
  \<^verbatim>\<open>pollutants.pm25\<close> and \<^verbatim>\<open>pollutants.pm10\<close> are numbers. An accepted
  reading is answered with status 200; any violation is answered with status 400 and the
  payload \<^verbatim>\<open>{success: false, error: <message>}\<close>. \<^verbatim>\<open>POST\<close> is a function of the
  request alone: the route calls no store, so no write is attempted on either outcome.
\<close>

theorem validateReading_accepts_iff_valid:
  assumes "single_reading_request req b"
  shows "(validateReading b = Inr None \<longleftrightarrow> spec_valid_reading b)
       \<and> (spec_valid_reading b \<longrightarrow>
            status (POST req) = 200 \<and> map_of (payload (POST req)) ''success'' = Some (JBool True))
       \<and> (\<not> spec_valid_reading b \<longrightarrow>
            (\<exists>msg. validateReading b = Inr (Some msg)
               \<and> POST req = \<lparr>status = 400,
                     payload = [(''success'', JBool False), (''error'', JStr msg)]\<rparr>))"
proof (intro conjI impI)
  show iff: "validateReading b = Inr None \<longleftrightarrow> spec_valid_reading b"
    using spec_valid_accepted accepted_spec_valid by blast
  from assms have nn: "b \<noteq> JNull"
    by (simp add: single_reading_request_def)
  {
    assume v: "spec_valid_reading b"
    then have ok: "validateReading b = Inr None" using iff by simp
    from nn obtain v_stationId v_aqi v_pollutants v_source v_metadata where g:
      "getprop b ''stationId'' = Inr v_stationId" "getprop b ''aqi'' = Inr v_aqi"
      "getprop b ''pollutants'' = Inr v_pollutants" "getprop b ''source'' = Inr v_source"
      "getprop b ''metadata'' = Inr v_metadata"
      using getprop_not_null by metis
    have "\<exists>r. single_response req b = Inr r \<and> status r = 200
            \<and> map_of (payload r) ''success'' = Some (JBool True)"
      using ok g by (simp add: single_response_def bind_err_def)
    then show "status (POST req) = 200"
      and "map_of (payload (POST req)) ''success'' = Some (JBool True)"
      using single_branch [OF assms] by auto
  }
  {
    assume v: "\<not> spec_valid_reading b"
    from validateReading_no_throw [OF nn] obtain r where r: "validateReading b = Inr r" ..
    with v iff obtain msg where msg: "r = Some msg" by (cases r) auto
    have "single_response req b = Inr \<lparr>status = 400,
            payload = [(''success'', JBool False), (''error'', JStr msg)]\<rparr>"
      using r msg by (simp add: single_response_def bind_err_def)
    with r msg show "\<exists>msg. validateReading b = Inr (Some msg)
               \<and> POST req = \<lparr>status = 400,
                     payload = [(''success'', JBool False), (''error'', JStr msg)]\<rparr>"
      using single_branch [OF assms] by simp
  }
qed

theorem validateReading_accepts_iff_valid_witness:
  "single_reading_request (sample_request 501) (sample_body 501)
   \<and> \<not> spec_valid_reading (sample_body 501)
   \<and> POST (sample_request 501) =
        \<lparr>status = 400,
         payload = [(''success'', JBool False),
                    (''error'', JStr ''aqi must be a number between 0 and 500'')]\<rparr>
   \<and> single_reading_request (sample_request 287) (sample_body 287)
   \<and> spec_valid_reading (sample_body 287)
   \<and> status (POST (sample_request 287)) = 200"
proof -
  have h1: "single_reading_request (sample_request 501) (sample_body 501)"
    by (simp add: single_reading_request_def sample_request_def sample_body_def unauthorized_def)
  have h2: "single_reading_request (sample_request 287) (sample_body 287)"
    by (simp add: single_reading_request_def sample_request_def sample_body_def unauthorized_def)
  have v1: "validateReading (sample_body 501) = Inr (Some ''aqi must be a number between 0 and 500'')"
    by (simp add: validateReading_def sample_body_def)
  have v2: "validateReading (sample_body 287) = Inr None"
    by (simp add: validateReading_def sample_body_def)
  from validateReading_accepts_iff_valid [OF h1] v1
  have r1: "\<not> spec_valid_reading (sample_body 501)"
    and p1: "POST (sample_request 501) =
        \<lparr>status = 400,
         payload = [(''success'', JBool False),
                    (''error'', JStr ''aqi must be a number between 0 and 500'')]\<rparr>"
    by auto
  from validateReading_accepts_iff_valid [OF h2] v2
  have r2: "spec_valid_reading (sample_body 287)"
    and p2: "status (POST (sample_request 287)) = 200"
    by auto
  from h1 r1 p1 h2 r2 p2 show ?thesis by blast
qed
section \<open>Custom ranges of the history route\<close>

lemma exceeds_90_days: "diffDays s e > 90 \<longleftrightarrow> e - s > 90 * ms_per_day"
  unfolding diffDays_def ms_per_day_def
proof -
  have "90 < \<lceil>real_of_int (e - s) / 86400000\<rceil> \<longleftrightarrow> 90 * 86400000 < real_of_int (e - s)"
    by (simp add: less_ceiling_iff pos_less_divide_eq)
  also have "\<dots> \<longleftrightarrow> 90 * 86400000 < e - s"
    by linarith
  finally show "90 < \<lceil>real_of_int (e - s) / real_of_int (1000 * 60 * 60 * 24)\<rceil>
      \<longleftrightarrow> 90 * (1000 * 60 * 60 * 24) < e - s"
    by simp
qed

lemma custom_range_rejects:
  assumes "parseDate sd = Some s" "parseDate ed = Some e" "s > e \<or> e - s > 90 * ms_per_day"
  shows "\<exists>msg. custom_range parseDate (Some sd) (Some ed) = Inl (error_response 400 msg)"
  using assms by (auto simp: custom_range_def missing_def exceeds_90_days)

text \<open>
  Claim C4. For a request with \<^verbatim>\<open>range=custom\<close> whose two dates parse, if the start
  date is after the end date, or the end date is more than 90 days after the start date,
  the handler answers with status 400 and has made no call of
  \<^verbatim>\<open>getHistoricalData\<close>, whatever the allow-list, the station parameter and the store are.
\<close>

theorem custom_range_rejected_before_store:
  assumes "range_param q = Some ''custom''"
      and "startDate_param q = Some sd" and "endDate_param q = Some ed"
      and "parseDate sd = Some s" and "parseDate ed = Some e"
      and "s > e \<or> e - s > 90 * ms_per_day"
  shows "status (fst (history_GET DELHI_STATIONS parseDate getHistoricalData q)) = 400
       \<and> snd (history_GET DELHI_STATIONS parseDate getHistoricalData q) = []"
proof -
  from custom_range_rejects [OF assms(4-6)] obtain msg where
    "custom_range parseDate (Some sd) (Some ed) = Inl (error_response 400 msg)" ..
  then show ?thesis
    using assms(1-3)
    by (simp add: history_GET_def param_or_def error_response_def Let_def split: option.split)
qed

theorem custom_range_rejected_before_store_witness:
  "range_param (custom_query ''2024-01-01'' ''2024-06-01'') = Some ''custom''
   \<and> sample_parseDate ''2024-01-01'' = Some 1704067200000
   \<and> sample_parseDate ''2024-06-01'' = Some 1717200000000
   \<and> 1717200000000 - 1704067200000 > 90 * ms_per_day
   \<and> status (fst (history_GET sample_stations sample_parseDate sample_history
                      (custom_query ''2024-01-01'' ''2024-06-01''))) = 400
   \<and> snd (history_GET sample_stations sample_parseDate sample_history
             (custom_query ''2024-01-01'' ''2024-06-01'')) = []"
proof -
  have q: "range_param (custom_query ''2024-01-01'' ''2024-06-01'') = Some ''custom''"
    "startDate_param (custom_query ''2024-01-01'' ''2024-06-01'') = Some ''2024-01-01''"
    "endDate_param (custom_query ''2024-01-01'' ''2024-06-01'') = Some ''2024-06-01''"
    by (simp_all add: custom_query_def)
  have d: "sample_parseDate ''2024-01-01'' = Some 1704067200000"
    "sample_parseDate ''2024-06-01'' = Some 1717200000000"
    by (simp_all add: sample_parseDate_def)
  have span: "(1704067200000::int) > 1717200000000
      \<or> 1717200000000 - 1704067200000 > 90 * ms_per_day"
    by (simp add: ms_per_day_def)
  from custom_range_rejected_before_store
         [of "custom_query ''2024-01-01'' ''2024-06-01''", OF q d span,
          of sample_stations sample_history]
  show ?thesis
    using q(1) d span by simp
qed
section \<open>The fallback chain of the weather route\<close>

lemma source_tag_simps:
  "source_tag (accu_response d now) = Some (JStr ''accuweather'')"
  "source_tag (waqi_response w) = Some (JStr ''waqi'')"
  "source_tag (scraped_response s) = Some (JStr ''scraped'')"
  "source_tag (fallback_response now) = Some (JStr ''fallback'')"
  "source_tag (weather_error_response e) = None"
  by (simp_all add: source_tag_def accu_response_def waqi_response_def scraped_response_def
        fallback_response_def weather_error_response_def num_def)

lemma status_simps:
  "status (accu_response d now) = 200"
  "status (waqi_response w) = 200"
  "status (scraped_response s) = 200"
  "status (fallback_response now) = 200"
  "status (weather_error_response e) = 500"
  by (simp_all add: accu_response_def waqi_response_def scraped_response_def
        fallback_response_def weather_error_response_def)

lemma fallback_fields:
  "map_of (payload (fallback_response now)) ''temperature'' = num 20"
  "map_of (payload (fallback_response now)) ''humidity'' = num 50"
  "map_of (payload (fallback_response now)) ''windSpeed'' = num 5"
  by (simp_all add: fallback_response_def num_def)

text \<open>
  The claim that every response carries a source tag fails where a source throws: with
  AccuWeather unavailable and \<^verbatim>\<open>fetchWAQIData\<close> throwing, the \<^verbatim>\<open>catch\<close> block
  answers with status 500 and a payload without \<^verbatim>\<open>source\<close>.
\<close>

theorem weather_source_tag_counterexample:
  "status (fst (weather_GET NotOk (Thrown ''network'') (Returned None) ''now'')) = 500
   \<and> source_tag (fst (weather_GET NotOk (Thrown ''network'') (Returned None) ''now'')) = None"
  by (simp add: weather_GET_def fetchAccuWeather_def source_tag_simps status_simps)

text \<open>
  Claim C9, amended. The handler tries AccuWeather, then WAQI, then the scraped data, then
  the static defaults (temperature 20, humidity 50, wind speed 5), and returns the first tier
  that yields data, calling no later source. Every response with status 200 carries the
  source tag of that tier (\<^verbatim>\<open>accuweather\<close>, \<^verbatim>\<open>waqi\<close>, \<^verbatim>\<open>scraped\<close> or
  \<^verbatim>\<open>fallback\<close>). The only other response is the status 500 of the \<^verbatim>\<open>catch\<close>
  block: whenever AccuWeather yields nothing and the WAQI call throws, or WAQI also yields
  nothing and the scraper call throws, the handler answers with status 500 and the payload
  \<^verbatim>\<open>{success: false, error, message}\<close>, which carries no source tag, and calls no
  further source.
\<close>

theorem weather_fallback_chain:
  "(fetchAccuWeather reply = Some a \<longrightarrow>
      weather_GET reply w s now = (accu_response a now, [AccuWeather])
      \<and> source_tag (accu_response a now) = Some (JStr ''accuweather''))
   \<and> (fetchAccuWeather reply = None \<and> w = Returned (Some wd) \<longrightarrow>
      weather_GET reply w s now = (waqi_response wd, [AccuWeather, WAQI])
      \<and> source_tag (waqi_response wd) = Some (JStr ''waqi''))
   \<and> (fetchAccuWeather reply = None \<and> w = Returned None \<and> s = Returned (Some sd) \<longrightarrow>
      weather_GET reply w s now = (scraped_response sd, [AccuWeather, WAQI, ScrapedData])
      \<and> source_tag (scraped_response sd) = Some (JStr ''scraped''))
   \<and> (fetchAccuWeather reply = None \<and> w = Returned None \<and> s = Returned None \<longrightarrow>
      weather_GET reply w s now = (fallback_response now, [AccuWeather, WAQI, ScrapedData])
      \<and> source_tag (fallback_response now) = Some (JStr ''fallback'')
      \<and> map_of (payload (fallback_response now)) ''temperature'' = num 20
      \<and> map_of (payload (fallback_response now)) ''humidity'' = num 50
      \<and> map_of (payload (fallback_response now)) ''windSpeed'' = num 5)
   \<and> (fetchAccuWeather reply = None \<and> w = Thrown e \<longrightarrow>
      weather_GET reply w s now = (weather_error_response e, [AccuWeather, WAQI])
      \<and> status (weather_error_response e) = 500
      \<and> source_tag (weather_error_response e) = None)
   \<and> (fetchAccuWeather reply = None \<and> w = Returned None \<and> s = Thrown e \<longrightarrow>
      weather_GET reply w s now = (weather_error_response e, [AccuWeather, WAQI, ScrapedData])
      \<and> status (weather_error_response e) = 500
      \<and> source_tag (weather_error_response e) = None)
   \<and> (status (fst (weather_GET reply w s now)) = 200 \<longrightarrow>
      source_tag (fst (weather_GET reply w s now)) \<in>
        {Some (JStr ''accuweather''), Some (JStr ''waqi''), Some (JStr ''scraped''),
         Some (JStr ''fallback'')})
   \<and> (status (fst (weather_GET reply w s now)) \<noteq> 200 \<longrightarrow>
      fetchAccuWeather reply = None
      \<and> (\<exists>e. w = Thrown e \<or> (w = Returned None \<and> s = Thrown e))
      \<and> status (fst (weather_GET reply w s now)) = 500
      \<and> source_tag (fst (weather_GET reply w s now)) = None)"
  by (auto simp: weather_GET_def source_tag_simps status_simps fallback_fields
        split: option.splits call_outcome.splits)

theorem weather_fallback_chain_witness:
  "fetchAccuWeather NotOk = None
   \<and> weather_GET NotOk (Returned None) (Returned None) ''2025-01-01T00:00:00.000Z'' =
        (fallback_response ''2025-01-01T00:00:00.000Z'', [AccuWeather, WAQI, ScrapedData])
   \<and> source_tag (fallback_response ''2025-01-01T00:00:00.000Z'') = Some (JStr ''fallback'')
   \<and> weather_GET NotOk (Thrown ''network'') (Returned None) ''now'' =
        (weather_error_response ''network'', [AccuWeather, WAQI])
   \<and> weather_GET NotOk (Returned None) (Thrown ''browser closed'') ''now'' =
        (weather_error_response ''browser closed'', [AccuWeather, WAQI, ScrapedData])
   \<and> status (fst (weather_GET NotOk (Thrown ''network'') (Returned None) ''now'')) = 500
   \<and> source_tag (fst (weather_GET NotOk (Thrown ''network'') (Returned None) ''now'')) = None"
proof -
  have a: "fetchAccuWeather NotOk = None"
    by (simp add: fetchAccuWeather_def)
  from weather_fallback_chain
         [of NotOk _ "Returned None" "Returned None" "''2025-01-01T00:00:00.000Z''"] a
  have 1: "weather_GET NotOk (Returned None) (Returned None) ''2025-01-01T00:00:00.000Z'' =
        (fallback_response ''2025-01-01T00:00:00.000Z'', [AccuWeather, WAQI, ScrapedData])
     \<and> source_tag (fallback_response ''2025-01-01T00:00:00.000Z'') = Some (JStr ''fallback'')"
    by simp
  from weather_fallback_chain
         [of NotOk _ "Thrown ''network''" "Returned None" "''now''" _ _ "''network''"] a
  have 2: "weather_GET NotOk (Thrown ''network'') (Returned None) ''now'' =
        (weather_error_response ''network'', [AccuWeather, WAQI])
     \<and> status (weather_error_response ''network'') = 500
     \<and> source_tag (weather_error_response ''network'') = None"
    by blast
  from weather_fallback_chain
         [of NotOk _ "Returned None" "Thrown ''browser closed''" "''now''" _ _ "''browser closed''"] a
  have 3: "weather_GET NotOk (Returned None) (Thrown ''browser closed'') ''now'' =
        (weather_error_response ''browser closed'', [AccuWeather, WAQI, ScrapedData])"
    by blast
  from a 1 2 3 show ?thesis by simp
qed
section \<open>The two-store write\<close>


lemma configured_env_ok:
  "isFirebaseConfigured configured_env" "firestore_instance configured_env"
  "isRealtimeDatabaseConfigured configured_env" "database_instance configured_env"
  by (simp_all add: isFirebaseConfigured_def isRealtimeDatabaseConfigured_def
        configured_env_def missing_def)

lemma sync_issues_set:
  assumes "isRealtimeDatabaseConfigured env" and "database_instance env"
  shows "\<exists>rest. snd (syncToRealtimeDatabase env setPromise sid r) =
           SetRef (station_path sid) (dataToSync r) # rest"
  using assms by (simp add: syncToRealtimeDatabase_def split: sum.split)

lemma sync_result: "\<exists>effects. syncToRealtimeDatabase env setPromise sid r = (Inr (), effects)"
  by (simp add: syncToRealtimeDatabase_def split: sum.split)

lemma save_effects:
  assumes "isFirebaseConfigured env" and "firestore_instance env"
  shows "snd (saveAQIReading env (Resolves docId) setPromise r) =
           AddDoc ''readings'' (docData r) # snd (syncToRealtimeDatabase env setPromise (stationId r) r)"
proof -
  obtain effects where
    "syncToRealtimeDatabase env setPromise (stationId r) r = (Inr (), effects)"
    using sync_result by blast
  with assms show ?thesis
    by (simp add: saveAQIReading_def race_timeout_def)
qed



section \<open>The batch update of the Realtime Database\<close>

lemma station_path_inj: "station_path a = station_path b \<longleftrightarrow> a = b"
  by (simp add: station_path_def)

lemma issue_updates_calls:
  "fst (issue_updates world clock i items db) =
     map (\<lambda>(k, item). UpdateRef (station_path (b_stationId item)) (batch_data (clock k) item))
         (List.enumerate i items)"
  by (induction items arbitrary: i db) (simp_all add: Let_def case_prod_beta)

lemma issue_updates_other_path:
  "sid \<notin> set (map b_stationId items) \<Longrightarrow>
     snd (issue_updates world clock i items db) (station_path sid) = db (station_path sid)"
proof (induction items arbitrary: i db)
  case Nil
  then show ?case by simp
next
  case (Cons item items)
  then have ne: "b_stationId item \<noteq> sid" and rest: "sid \<notin> set (map b_stationId items)"
    by auto
  show ?case
    using Cons.IH [OF rest] ne
    by (simp add: Let_def apply_update_def station_path_inj case_prod_beta)
qed

lemma issue_updates_written:
  "j < length items \<Longrightarrow> world (i + j) = Written \<Longrightarrow> distinct (map b_stationId items) \<Longrightarrow>
     snd (issue_updates world clock i items db) (station_path (b_stationId (items ! j))) =
       foldl assign (db (station_path (b_stationId (items ! j))))
         (batch_data (clock (i + j)) (items ! j))"
proof (induction items arbitrary: i j db)
  case Nil
  then show ?case by simp
next
  case (Cons item items)
  from Cons.prems(3) have fresh: "b_stationId item \<notin> set (map b_stationId items)"
    and dist: "distinct (map b_stationId items)"
    by simp_all
  show ?case
  proof (cases j)
    case 0
    with Cons.prems(2) have w: "world i = Written" by simp
    show ?thesis
      using issue_updates_other_path [OF fresh, of world clock "Suc i"] w 0
      by (simp add: Let_def apply_update_def case_prod_beta)
  next
    case (Suc j')
    with Cons.prems have j': "j' < length items" and w: "world (Suc i + j') = Written"
      by simp_all
    from j' fresh have ne: "b_stationId item \<noteq> b_stationId (items ! j')"
      by (metis nth_mem length_map nth_map)
    show ?thesis
      using Cons.IH [OF j' w dist] ne Suc
      by (simp add: Let_def apply_update_def station_path_inj case_prod_beta)
  qed
qed

text \<open>
  Claim C3. On a configured system \<^verbatim>\<open>batchUpdateRealtimeDB\<close> issues the \<^verbatim>\<open>update\<close>
  of every item of the batch, in order, whatever any of the calls does: an item whose update
  throws or rejects stops no other call. Every write that is carried out reaches the
  database: for a batch of distinct stations, the node of an item whose own write succeeds
  ends up holding that item's values, whether or not other items failed.
\<close>

theorem batch_failure_blocks_no_other_write:
  assumes "isRealtimeDatabaseConfigured env" and "database_instance env"
  shows "fst (snd (batchUpdateRealtimeDB env world clock db updates)) =
           map (\<lambda>(k, item). UpdateRef (station_path (b_stationId item)) (batch_data (clock k) item))
               (List.enumerate 0 updates)
       \<and> (\<forall>j < length updates. world j = Written \<and> distinct (map b_stationId updates) \<longrightarrow>
            snd (snd (batchUpdateRealtimeDB env world clock db updates))
                (station_path (b_stationId (updates ! j))) =
              foldl assign (db (station_path (b_stationId (updates ! j))))
                (batch_data (clock j) (updates ! j)))"
proof -
  obtain calls db' where run: "issue_updates world clock 0 updates db = (calls, db')"
    by (cases "issue_updates world clock 0 updates db")
  have b: "snd (batchUpdateRealtimeDB env world clock db updates) = (calls, db')"
    using assms run
    by (simp add: batchUpdateRealtimeDB_def split: option.split sum.split)
  have c: "calls = map (\<lambda>(k, item). UpdateRef (station_path (b_stationId item)) (batch_data (clock k) item))
               (List.enumerate 0 updates)"
    using issue_updates_calls [of world clock 0 updates db] run by simp
  have d: "\<forall>j < length updates. world j = Written \<and> distinct (map b_stationId updates) \<longrightarrow>
            db' (station_path (b_stationId (updates ! j))) =
              foldl assign (db (station_path (b_stationId (updates ! j))))
                (batch_data (clock j) (updates ! j))"
    using issue_updates_written [of _ updates world 0 clock db] run by simp
  from b c d show ?thesis by simp
qed

theorem batch_failure_blocks_no_other_write_witness:
  "isRealtimeDatabaseConfigured configured_env \<and> database_instance configured_env
   \<and> sample_world 1 = Threw ''Error: update failed''
   \<and> sample_world 2 = Written \<and> distinct (map b_stationId sample_batch)
   \<and> fst (batchUpdateRealtimeDB configured_env sample_world sample_clock empty_db sample_batch) =
        Some (failed ''Error: update failed'')
   \<and> fst (snd (batchUpdateRealtimeDB configured_env sample_world sample_clock empty_db sample_batch)) =
        [UpdateRef ''stations/a''
           [(''aqi'', Num 101), (''pm25'', Num 61), (''lastUpdated'', ISOString 1735689600000)],
         UpdateRef ''stations/b''
           [(''aqi'', Num 102), (''pm25'', Num 62), (''lastUpdated'', ISOString 1735689600000)],
         UpdateRef ''stations/c''
           [(''aqi'', Num 103), (''pm25'', Num 63), (''lastUpdated'', ISOString 1735689600000)]]
   \<and> snd (snd (batchUpdateRealtimeDB configured_env sample_world sample_clock empty_db sample_batch))
        ''stations/c'' =
        [(''aqi'', Num 103), (''pm25'', Num 63), (''lastUpdated'', ISOString 1735689600000)]"
proof -
  note c = configured_env_ok(3,4)
  have w: "sample_world 1 = Threw ''Error: update failed''" "sample_world 2 = Written"
    by (simp_all add: sample_world_def)
  have d: "distinct (map b_stationId sample_batch)" "(2::nat) < length sample_batch"
    by (simp_all add: sample_batch_def)
  have r: "fst (batchUpdateRealtimeDB configured_env sample_world sample_clock empty_db sample_batch) =
        Some (failed ''Error: update failed'')"
    using c
    by (simp add: batchUpdateRealtimeDB_def promise_all_def sample_world_def sample_batch_def
          upt_rec case_prod_beta)
  have e: "List.enumerate 0 sample_batch =
      [(0, sample_batch ! 0), (1, sample_batch ! 1), (2, sample_batch ! 2)]"
    by (simp add: sample_batch_def enumerate_eq_zip upt_rec)
  have v: "batch_data (sample_clock 0) (sample_batch ! 0) =
        [(''aqi'', Num 101), (''pm25'', Num 61), (''lastUpdated'', ISOString 1735689600000)]"
    "batch_data (sample_clock 1) (sample_batch ! 1) =
        [(''aqi'', Num 102), (''pm25'', Num 62), (''lastUpdated'', ISOString 1735689600000)]"
    "batch_data (sample_clock 2) (sample_batch ! 2) =
        [(''aqi'', Num 103), (''pm25'', Num 63), (''lastUpdated'', ISOString 1735689600000)]"
    by (simp_all add: batch_data_def sample_batch_def sample_clock_def)
  have p: "station_path (b_stationId (sample_batch ! 0)) = ''stations/a''"
    "station_path (b_stationId (sample_batch ! 1)) = ''stations/b''"
    "station_path (b_stationId (sample_batch ! 2)) = ''stations/c''"
    by (simp_all add: station_path_def sample_batch_def)
  from batch_failure_blocks_no_other_write
         [OF c, of sample_world sample_clock empty_db sample_batch]
  have calls: "fst (snd (batchUpdateRealtimeDB configured_env sample_world sample_clock empty_db
                  sample_batch)) =
           map (\<lambda>(k, item). UpdateRef (station_path (b_stationId item))
                                 (batch_data (sample_clock k) item))
               (List.enumerate 0 sample_batch)"
    and store: "snd (snd (batchUpdateRealtimeDB configured_env sample_world sample_clock empty_db
                  sample_batch)) (station_path (b_stationId (sample_batch ! 2))) =
              foldl assign (empty_db (station_path (b_stationId (sample_batch ! 2))))
                (batch_data (sample_clock 2) (sample_batch ! 2))"
    using w(2) d by blast+
  have calls': "fst (snd (batchUpdateRealtimeDB configured_env sample_world sample_clock empty_db
                  sample_batch)) =
        [UpdateRef ''stations/a''
           [(''aqi'', Num 101), (''pm25'', Num 61), (''lastUpdated'', ISOString 1735689600000)],
         UpdateRef ''stations/b''
           [(''aqi'', Num 102), (''pm25'', Num 62), (''lastUpdated'', ISOString 1735689600000)],
         UpdateRef ''stations/c''
           [(''aqi'', Num 103), (''pm25'', Num 63), (''lastUpdated'', ISOString 1735689600000)]]"
    unfolding calls e using v p by simp
  have store': "snd (snd (batchUpdateRealtimeDB configured_env sample_world sample_clock empty_db
                  sample_batch)) ''stations/c'' =
        [(''aqi'', Num 103), (''pm25'', Num 63), (''lastUpdated'', ISOString 1735689600000)]"
    using store unfolding p v by (simp add: empty_db_def)
  from c w d(1) r calls' store' show ?thesis by blast
qed
section \<open>The scraper: helper facts\<close>

declare attempts.simps [simp del]

declare bit_length.simps [simp del]

lemma bit_length_step: "0 < n \<Longrightarrow> bit_length n = Suc (bit_length (n div 2))"
  by (subst bit_length.simps) simp

lemma bit_length_lower: "0 < N \<Longrightarrow> 2 ^ (bit_length N - 1) \<le> N"
proof (induction N rule: bit_length.induct)
  case (1 n)
  show ?case
  proof (cases "n div 2 = 0")
    case True
    have "(2::nat) ^ (bit_length n - 1) = 2 ^ bit_length (n div 2)"
      using "1.prems" by (simp add: bit_length_step)
    also have "\<dots> = 1"
      unfolding True by (subst bit_length.simps) simp
    also have "\<dots> \<le> n"
      using "1.prems" by simp
    finally show ?thesis .
  next
    case False
    then have pos: "0 < n div 2"
      by simp
    with "1.prems" "1.IH" have ih: "2 ^ (bit_length (n div 2) - 1) \<le> n div 2"
      by simp
    have "(2::nat) ^ (bit_length n - 1) = 2 ^ bit_length (n div 2)"
      using "1.prems" by (simp add: bit_length_step)
    also have "\<dots> = 2 * 2 ^ (bit_length (n div 2) - 1)"
      by (simp add: bit_length_step [OF pos])
    also from ih have "\<dots> \<le> 2 * (n div 2)"
      by simp
    also have "\<dots> \<le> n"
      by simp
    finally show ?thesis .
  qed
qed

lemma bit_length_eq: "2 ^ L \<le> N \<Longrightarrow> N < 2 ^ Suc L \<Longrightarrow> bit_length N = Suc L"
proof (induction L arbitrary: N)
  case 0
  then have N: "N = Suc 0" by simp
  have z: "bit_length 0 = 0"
    by (subst bit_length.simps) simp
  have "bit_length (Suc 0) = Suc (bit_length (Suc 0 div 2))"
    by (rule bit_length_step) simp
  with z show ?case
    unfolding N by simp
next
  case (Suc L)
  from Suc.prems have lo: "2 ^ L \<le> N div 2" and hi: "N div 2 < 2 ^ Suc L"
    by simp_all
  from Suc.prems(1) have "0 < N"
    by (metis gr0I power_eq_0_iff le_zero_eq zero_neq_numeral)
  then show ?case
    using Suc.IH [OF lo hi] by (simp add: bit_length_step)
qed

lemma round_to_double_at:
  assumes "bit_length N = 53 + sh" and "0 < sh"
  shows "round_to_double N = round_at sh N"
  using assms by (simp add: round_to_double_def round_at_def)

lemma product_in_binade:
  assumes "lo \<le> n" and "n \<le> hi" and "2 ^ (52 + sh) \<le> lo * m" and "hi * m < 2 ^ (53 + sh)"
      and "0 < sh"
  shows "round_product n m s = product_at sh m s n"
proof -
  from assms(1) have "lo * m \<le> n * m" by (rule mult_le_mono1)
  with assms(3) have lo: "2 ^ (52 + sh) \<le> n * m" by (rule order_trans)
  from assms(2) have "n * m \<le> hi * m" by (rule mult_le_mono1)
  then have "n * m < 2 ^ (53 + sh)" using assms(4) by (rule le_less_trans)
  then have hi: "n * m < 2 ^ Suc (52 + sh)" by simp
  from bit_length_eq [OF lo hi] have "bit_length (n * m) = 53 + sh" by simp
  from round_to_double_at [OF this assms(5)] show ?thesis
    by (simp add: round_product_def product_at_def)
qed

lemma chunk_0_7_a: "map (product_at 6 6305039478318694 53) [51..<92] = map round_0_7 [51..<92]"
  by (simp add: product_at_def round_at_def round_0_7_def round_tenths_def ties_rounded_down_def Let_def)


lemma chunk_0_7_b: "map (product_at 7 6305039478318694 53) [92..<183] = map round_0_7 [92..<183]"
  by (simp add: product_at_def round_at_def round_0_7_def round_tenths_def ties_rounded_down_def Let_def)

lemma chunk_0_7_c: "map (product_at 8 6305039478318694 53) [183..<366] = map round_0_7 [183..<366]"
  by (simp add: product_at_def round_at_def round_0_7_def round_tenths_def ties_rounded_down_def Let_def)

lemma chunk_0_7_d: "map (product_at 9 6305039478318694 53) [366..<600] = map round_0_7 [366..<600]"
  by (simp add: product_at_def round_at_def round_0_7_def round_tenths_def ties_rounded_down_def Let_def)

lemma chunk_1_1_a: "map (product_at 5 4953959590107546 52) [51..<59] = map round_1_1 [51..<59]"
  by (simp add: product_at_def round_at_def round_1_1_def round_tenths_def Let_def)

lemma chunk_1_1_b: "map (product_at 6 4953959590107546 52) [59..<117] = map round_1_1 [59..<117]"
  by (simp add: product_at_def round_at_def round_1_1_def round_tenths_def Let_def)

lemma chunk_1_1_c: "map (product_at 7 4953959590107546 52) [117..<233] = map round_1_1 [117..<233]"
  by (simp add: product_at_def round_at_def round_1_1_def round_tenths_def Let_def)

lemma chunk_1_1_d: "map (product_at 8 4953959590107546 52) [233..<466] = map round_1_1 [233..<466]"
  by (simp add: product_at_def round_at_def round_1_1_def round_tenths_def Let_def)

lemma chunk_1_1_e: "map (product_at 9 4953959590107546 52) [466..<600] = map round_1_1 [466..<600]"
  by (simp add: product_at_def round_at_def round_1_1_def round_tenths_def Let_def)

lemma map_eq_at: "map f [a..<b] = map g [a..<b] \<Longrightarrow> a \<le> n \<Longrightarrow> n < b \<Longrightarrow> f n = g n"
  by simp

lemma times_0_7_closed:
  assumes "50 < n" and "n < 600"
  shows "times_0_7_rounded n = round_0_7 n"
proof -
  consider "51 \<le> n \<and> n \<le> 91" | "92 \<le> n \<and> n \<le> 182" | "183 \<le> n \<and> n \<le> 365"
    | "366 \<le> n \<and> n \<le> 599"
    using assms by linarith
  then show ?thesis
  proof cases
    case 1
    then have "round_product n 6305039478318694 53 = product_at 6 6305039478318694 53 n"
      by (intro product_in_binade [of 51 n 91]) simp_all
    with map_eq_at [OF chunk_0_7_a, of n] 1 show ?thesis
      by (simp add: times_0_7_rounded_def)
  next
    case 2
    then have "round_product n 6305039478318694 53 = product_at 7 6305039478318694 53 n"
      by (intro product_in_binade [of 92 n 182]) simp_all
    with map_eq_at [OF chunk_0_7_b, of n] 2 show ?thesis
      by (simp add: times_0_7_rounded_def)
  next
    case 3
    then have "round_product n 6305039478318694 53 = product_at 8 6305039478318694 53 n"
      by (intro product_in_binade [of 183 n 365]) simp_all
    with map_eq_at [OF chunk_0_7_c, of n] 3 show ?thesis
      by (simp add: times_0_7_rounded_def)
  next
    case 4
    then have "round_product n 6305039478318694 53 = product_at 9 6305039478318694 53 n"
      by (intro product_in_binade [of 366 n 599]) simp_all
    with map_eq_at [OF chunk_0_7_d, of n] 4 show ?thesis
      by (simp add: times_0_7_rounded_def)
  qed
qed

lemma times_1_1_closed:
  assumes "50 < n" and "n < 600"
  shows "times_1_1_rounded n = round_1_1 n"
proof -
  consider "51 \<le> n \<and> n \<le> 58" | "59 \<le> n \<and> n \<le> 116" | "117 \<le> n \<and> n \<le> 232"
    | "233 \<le> n \<and> n \<le> 465" | "466 \<le> n \<and> n \<le> 599"
    using assms by linarith
  then show ?thesis
  proof cases
    case 1
    then have "round_product n 4953959590107546 52 = product_at 5 4953959590107546 52 n"
      by (intro product_in_binade [of 51 n 58]) simp_all
    with map_eq_at [OF chunk_1_1_a, of n] 1 show ?thesis
      by (simp add: times_1_1_rounded_def)
  next
    case 2
    then have "round_product n 4953959590107546 52 = product_at 6 4953959590107546 52 n"
      by (intro product_in_binade [of 59 n 116]) simp_all
    with map_eq_at [OF chunk_1_1_b, of n] 2 show ?thesis
      by (simp add: times_1_1_rounded_def)
  next
    case 3
    then have "round_product n 4953959590107546 52 = product_at 7 4953959590107546 52 n"
      by (intro product_in_binade [of 117 n 232]) simp_all
    with map_eq_at [OF chunk_1_1_c, of n] 3 show ?thesis
      by (simp add: times_1_1_rounded_def)
  next
    case 4
    then have "round_product n 4953959590107546 52 = product_at 8 4953959590107546 52 n"
      by (intro product_in_binade [of 233 n 465]) simp_all
    with map_eq_at [OF chunk_1_1_d, of n] 4 show ?thesis
      by (simp add: times_1_1_rounded_def)
  next
    case 5
    then have "round_product n 4953959590107546 52 = product_at 9 4953959590107546 52 n"
      by (intro product_in_binade [of 466 n 599]) simp_all
    with map_eq_at [OF chunk_1_1_e, of n] 5 show ?thesis
      by (simp add: times_1_1_rounded_def)
  qed
qed

lemma round_to_double_lower:
  assumes "2 ^ 52 \<le> N"
  shows "2 ^ 52 \<le> round_to_double N"
proof (cases "bit_length N \<le> 53")
  case True
  with assms show ?thesis by (simp add: round_to_double_def)
next
  case False
  define sh where "sh = bit_length N - 53"
  define q where "q = N div 2 ^ sh"
  define up where "up = (N mod 2 ^ sh > 2 ^ (sh - 1) \<or> (N mod 2 ^ sh = 2 ^ (sh - 1) \<and> odd q))"
  from False have L: "bit_length N - 1 = 52 + sh"
    by (simp add: sh_def)
  have "(0::nat) < 2 ^ 52"
    by simp
  with assms have "0 < N"
    by linarith
  then have "2 ^ (bit_length N - 1) \<le> N"
    by (rule bit_length_lower)
  then have "2 ^ (52 + sh) \<le> N"
    unfolding L .
  then have "2 ^ (52 + sh) div 2 ^ sh \<le> q"
    unfolding q_def by (rule div_le_mono)
  moreover have "(2::nat) ^ (52 + sh) div 2 ^ sh = 2 ^ 52"
    by (simp only: power_add nonzero_mult_div_cancel_right power_eq_0_iff) simp
  ultimately have q52: "(2::nat) ^ 52 \<le> q"
    by simp
  have "q \<le> q * 2 ^ sh"
    by simp
  with q52 have "(2::nat) ^ 52 \<le> q * 2 ^ sh"
    by (rule order_trans)
  also have "q * 2 ^ sh \<le> (if up then q + 1 else q) * 2 ^ sh"
    by simp
  also have "(if up then q + 1 else q) * 2 ^ sh = round_to_double N"
    using False unfolding round_to_double_def Let_def up_def q_def sh_def
    by (simp only: if_False)
  finally show ?thesis .
qed

lemma round_product_positive:
  assumes "0 < n" and "2 ^ 52 \<le> m" and "s \<le> 53"
  shows "0 < round_product n m s"
proof -
  from assms(1) have "m \<le> n * m"
    by simp
  with assms(2) have "2 ^ 52 \<le> n * m"
    by (rule order_trans)
  then have "2 ^ 52 \<le> round_to_double (n * m)"
    by (rule round_to_double_lower)
  then have "2 * (2::nat) ^ 52 \<le> 2 * round_to_double (n * m)"
    by simp
  then have a: "(2::nat) ^ 53 \<le> 2 * round_to_double (n * m)"
    by simp
  from assms(3) have b: "(2::nat) ^ s \<le> 2 ^ 53"
    by (intro power_increasing) simp_all
  from a b have "(2::nat) ^ s \<le> 2 * round_to_double (n * m)"
    by (rule order_trans [rotated])
  then have "(2::nat) ^ s + 2 ^ s \<le> 2 * round_to_double (n * m) + 2 ^ s"
    by simp
  then have "(2::nat) ^ (s + 1) \<le> 2 * round_to_double (n * m) + 2 ^ s"
    by simp
  then have "2 ^ (s + 1) div 2 ^ (s + 1) \<le> (2 * round_to_double (n * m) + 2 ^ s) div 2 ^ (s + 1)"
    by (rule div_le_mono)
  then show ?thesis
    by (simp add: round_product_def)
qed

lemma synthesized_positive:
  "0 < n \<Longrightarrow> 0 < times_0_7_rounded n" "0 < n \<Longrightarrow> 0 < times_1_1_rounded n"
  unfolding times_0_7_rounded_def times_1_1_rounded_def
  by (rule round_product_positive; simp)+

lemma build_result_nonzero:
  assumes "page_data.delhiAqi d \<noteq> 0"
  shows "AQIScrapedData.delhiAqi (build_result d t) \<noteq> 0"
    and "AQIScrapedData.pm25 (build_result d t) \<noteq> 0"
    and "AQIScrapedData.pm10 (build_result d t) \<noteq> 0"
    and "AQIScrapedData.temperature (build_result d t) \<noteq> 0"
    and "AQIScrapedData.humidity (build_result d t) \<noteq> 0"
    and "AQIScrapedData.windSpeed (build_result d t) \<noteq> 0"
  using assms synthesized_positive [of "page_data.delhiAqi d"]
  by (simp_all add: build_result_def or_num_def)

lemma iteration_returns:
  assumes "iteration script a st = (Return (Some r), st', ev)"
  shows "\<exists>page builtAt cachedAt. script = Extracts page builtAt cachedAt Closed
           \<and> page_data.delhiAqi (evaluate page) \<noteq> 0
           \<and> r = build_result (evaluate page) builtAt"
proof (cases script)
  case (Fails p)
  with assms show ?thesis
    by (simp add: iteration_def Let_def split: if_splits)
next
  case (Blocked c)
  with assms show ?thesis
    by (simp add: iteration_def Let_def split: if_splits)
next
  case (Extracts page builtAt cachedAt c)
  with assms show ?thesis
    by (simp add: iteration_def Let_def split: if_splits)
qed

lemma attempts_success:
  "attempts world a st tr = (Some r, st', tr') \<Longrightarrow>
     \<exists>k page builtAt cachedAt. a \<le> k \<and> k \<le> maxRetries
        \<and> world k = Extracts page builtAt cachedAt Closed
        \<and> page_data.delhiAqi (evaluate page) \<noteq> 0
        \<and> r = build_result (evaluate page) builtAt"
proof (induction world a st tr rule: attempts.induct)
  case (1 world attempt st trace)
  from "1.prems" have le: "attempt \<le> maxRetries"
    by (subst (asm) attempts.simps) (simp split: if_splits)
  obtain e st1 ev where it: "iteration (world attempt) attempt st = (e, st1, ev)"
    by (cases "iteration (world attempt) attempt st")
  show ?case
  proof (cases e)
    case (Return r0)
    with "1.prems" le it have "r0 = Some r"
      by (subst (asm) attempts.simps) simp
    with it Return iteration_returns [of "world attempt" attempt st r st1 ev] le
    show ?thesis by blast
  next
    case NextAttempt
    with "1.prems" le it have "attempts world (Suc attempt) st1 (trace @ ev) = (Some r, st', tr')"
      by (subst (asm) attempts.simps) simp
    from "1.IH" [OF le it [symmetric] NextAttempt refl this]
    obtain k page builtAt cachedAt where "Suc attempt \<le> k" "k \<le> maxRetries"
      "world k = Extracts page builtAt cachedAt Closed"
      "page_data.delhiAqi (evaluate page) \<noteq> 0" "r = build_result (evaluate page) builtAt"
      by blast
    then show ?thesis
      by (intro exI [of _ k] exI [of _ page] exI [of _ builtAt] exI [of _ cachedAt]) simp
  qed
qed

lemma evaluate_empty_page: "page_data.delhiAqi (evaluate empty_page) = 0"
  by (simp add: evaluate_def empty_page_def extractNumber_def is_digit_def parse_decimal_def)

lemma evaluate_delhi_page:
  "evaluate delhi_page =
     \<lparr>page_data.delhiAqi = 287, pm25 = 196, pm10 = 0, temperature = 0, humidity = 0,
      windSpeed = 12, cities = [(''Noida'', 301)]\<rparr>"
  by (simp add: evaluate_def delhi_page_def extractNumber_def is_digit_def parse_decimal_def
        matched_or_zero_def)

lemma evaluate_bare_page:
  "evaluate bare_page =
     \<lparr>page_data.delhiAqi = 365, pm25 = 0, pm10 = 0, temperature = 0, humidity = 0,
      windSpeed = 0, cities = []\<rparr>"
  by (simp add: evaluate_def bare_page_def extractNumber_def is_digit_def parse_decimal_def
        matched_or_zero_def)

lemma index_step_range:
  "d = 0 \<or> (50 < d \<and> d < 600) \<Longrightarrow>
     foldl (\<lambda>delhiAqi text.
              let num = extractNumber text
              in if num > 50 \<and> num < 600 \<and> num > delhiAqi then num else delhiAqi) d texts = 0
     \<or> (50 < foldl (\<lambda>delhiAqi text.
              let num = extractNumber text
              in if num > 50 \<and> num < 600 \<and> num > delhiAqi then num else delhiAqi) d texts
        \<and> foldl (\<lambda>delhiAqi text.
              let num = extractNumber text
              in if num > 50 \<and> num < 600 \<and> num > delhiAqi then num else delhiAqi) d texts < 600)"
proof (induction texts arbitrary: d)
  case Nil
  then show ?case by simp
next
  case (Cons x xs)
  show ?case
    unfolding foldl_Cons
    using Cons.prems by (intro Cons.IH) (auto simp: Let_def)
qed

lemma evaluate_index_range:
  "page_data.delhiAqi (evaluate page) = 0
   \<or> (50 < page_data.delhiAqi (evaluate page) \<and> page_data.delhiAqi (evaluate page) < 600)"
  using index_step_range [of 0 "aqiElements page"] by (simp add: evaluate_def)

lemma cache_miss:
  "\<not> cache_fresh c now \<Longrightarrow>
     scrapeAQIIn c now world =
       (case attempts world 1 \<lparr>page_open = False, cachedScrapedData = c\<rparr> [] of
          (r, st, trace) \<Rightarrow> (r, cachedScrapedData st, trace))"
  by (simp add: scrapeAQIIn_def)
section \<open>The scraper cache\<close>

text \<open>
  Claim C6. A call of \<^verbatim>\<open>scrapeAQIIn\<close> made while the cache holds an entry younger than
  \<^verbatim>\<open>CACHE_DURATION\<close> (5 minutes) returns the cached value and leaves the cache as it is,
  with an empty list of events: no browser is fetched or launched, no context or page is
  created and nothing is navigated to, whatever the site would have done.
\<close>

theorem cache_hit_skips_browser:
  assumes "c = Some e" and "now - cache_timestamp e < CACHE_DURATION"
  shows "scrapeAQIIn c now world = (cache_data e, c, [])"
  using assms by (simp add: scrapeAQIIn_def cache_fresh_def)

theorem cache_hit_skips_browser_witness:
  "stale_cache = Some (the stale_cache)
   \<and> 1735680299999 - cache_timestamp (the stale_cache) < CACHE_DURATION
   \<and> scrapeAQIIn stale_cache 1735680299999 (\<lambda>k. Extracts delhi_page 0 0 Closed) =
        (cache_data (the stale_cache), stale_cache, [])"
proof -
  have 1: "stale_cache = Some (the stale_cache)"
    by (simp add: stale_cache_def)
  have 2: "1735680299999 - cache_timestamp (the stale_cache) < CACHE_DURATION"
    by (simp add: stale_cache_def CACHE_DURATION_def)
  from cache_hit_skips_browser [OF 1 2] 1 2 show ?thesis
    by blast
qed
section \<open>The result of a successful scrape\<close>

text \<open>
  Claim C10. When a call of \<^verbatim>\<open>scrapeAQIIn\<close> that does not hit the cache returns a
  result, the result was built in an attempt that extracted a non-zero index value, which
  then lies between 51 and 599, and each secondary field that was extracted as 0 (or not
  found) holds the synthesized value: for \<^verbatim>\<open>pm25\<close> the value of
  \<^verbatim>\<open>Math.round(delhiAqi * 0.7)\<close>, which is the nearest integer to seven tenths of the
  index value with a tie going up, except that at the eight index values 85, 165, 175, 325,
  335, 345, 355 and 365 the double product lies just below the tie and the value is one
  less; for \<^verbatim>\<open>pm10\<close> the value of \<^verbatim>\<open>Math.round(delhiAqi * 1.1)\<close>, the nearest
  integer to eleven tenths of the index value with a tie going up; 15 for the temperature,
  70 for the humidity and 10 for the wind speed. So no secondary field of the result is 0,
  and such a field need not be a value shown on the page.
\<close>

theorem successful_scrape_has_no_zero_field:
  assumes "\<not> cache_fresh c now" and "scrapeAQIIn c now world = (Some r, c', trace)"
  shows "\<exists>k page builtAt cachedAt.
           1 \<le> k \<and> k \<le> maxRetries \<and> world k = Extracts page builtAt cachedAt Closed
         \<and> page_data.delhiAqi (evaluate page) \<noteq> 0
         \<and> 50 < page_data.delhiAqi (evaluate page) \<and> page_data.delhiAqi (evaluate page) < 600
         \<and> AQIScrapedData.delhiAqi r = page_data.delhiAqi (evaluate page)
         \<and> AQIScrapedData.pm25 r =
               (if page_data.pm25 (evaluate page) = 0
                then (if page_data.delhiAqi (evaluate page) \<in> {85, 165, 175, 325, 335, 345, 355, 365}
                      then (7 * page_data.delhiAqi (evaluate page) + 5) div 10 - 1
                      else (7 * page_data.delhiAqi (evaluate page) + 5) div 10)
                else page_data.pm25 (evaluate page))
         \<and> AQIScrapedData.pm10 r =
               (if page_data.pm10 (evaluate page) = 0
                then (11 * page_data.delhiAqi (evaluate page) + 5) div 10
                else page_data.pm10 (evaluate page))
         \<and> AQIScrapedData.temperature r =
               (if page_data.temperature (evaluate page) = 0 then 15
                else page_data.temperature (evaluate page))
         \<and> AQIScrapedData.humidity r =
               (if page_data.humidity (evaluate page) = 0 then 70
                else page_data.humidity (evaluate page))
         \<and> AQIScrapedData.windSpeed r =
               (if page_data.windSpeed (evaluate page) = 0 then 10
                else page_data.windSpeed (evaluate page))
         \<and> AQIScrapedData.pm25 r \<noteq> 0 \<and> AQIScrapedData.pm10 r \<noteq> 0
         \<and> AQIScrapedData.temperature r \<noteq> 0 \<and> AQIScrapedData.humidity r \<noteq> 0
         \<and> AQIScrapedData.windSpeed r \<noteq> 0"
proof -
  obtain st where "attempts world 1 \<lparr>page_open = False, cachedScrapedData = c\<rparr> [] = (Some r, st, trace)"
    using assms(2) unfolding cache_miss [OF assms(1)]
    by (cases "attempts world 1 \<lparr>page_open = False, cachedScrapedData = c\<rparr> []") simp
  from attempts_success [OF this]
  obtain k page builtAt cachedAt where k: "1 \<le> k" "k \<le> maxRetries"
    "world k = Extracts page builtAt cachedAt Closed"
    and nz: "page_data.delhiAqi (evaluate page) \<noteq> 0"
    and r: "r = build_result (evaluate page) builtAt"
    by blast
  from nz evaluate_index_range [of page]
  have range: "50 < page_data.delhiAqi (evaluate page)" "page_data.delhiAqi (evaluate page) < 600"
    by simp_all
  have s07: "times_0_7_rounded (page_data.delhiAqi (evaluate page)) =
      (if page_data.delhiAqi (evaluate page) \<in> {85, 165, 175, 325, 335, 345, 355, 365}
       then (7 * page_data.delhiAqi (evaluate page) + 5) div 10 - 1
       else (7 * page_data.delhiAqi (evaluate page) + 5) div 10)"
    unfolding times_0_7_closed [OF range]
    by (simp add: round_0_7_def round_tenths_def ties_rounded_down_def)
  have s11: "times_1_1_rounded (page_data.delhiAqi (evaluate page)) =
      (11 * page_data.delhiAqi (evaluate page) + 5) div 10"
    unfolding times_1_1_closed [OF range]
    by (simp add: round_1_1_def round_tenths_def)
  have d: "AQIScrapedData.delhiAqi r = page_data.delhiAqi (evaluate page)"
    unfolding r by (simp add: build_result_def)
  have p25: "AQIScrapedData.pm25 r =
       (if page_data.pm25 (evaluate page) = 0
        then (if page_data.delhiAqi (evaluate page) \<in> {85, 165, 175, 325, 335, 345, 355, 365}
              then (7 * page_data.delhiAqi (evaluate page) + 5) div 10 - 1
              else (7 * page_data.delhiAqi (evaluate page) + 5) div 10)
        else page_data.pm25 (evaluate page))"
    unfolding r s07 [symmetric] by (simp add: build_result_def or_num_def)
  have p10: "AQIScrapedData.pm10 r =
       (if page_data.pm10 (evaluate page) = 0
        then (11 * page_data.delhiAqi (evaluate page) + 5) div 10
        else page_data.pm10 (evaluate page))"
    unfolding r s11 [symmetric] by (simp add: build_result_def or_num_def)
  have rest: "AQIScrapedData.temperature r =
       (if page_data.temperature (evaluate page) = 0 then 15
        else page_data.temperature (evaluate page))"
    "AQIScrapedData.humidity r =
       (if page_data.humidity (evaluate page) = 0 then 70
        else page_data.humidity (evaluate page))"
    "AQIScrapedData.windSpeed r =
       (if page_data.windSpeed (evaluate page) = 0 then 10
        else page_data.windSpeed (evaluate page))"
    unfolding r by (simp_all add: build_result_def or_num_def)
  note nonzero = build_result_nonzero [OF nz, of builtAt, folded r]
  from k nz range d p25 p10 rest nonzero show ?thesis
    by blast
qed

lemma scrape_bare_page:
  "scrapeAQIIn None 0 (\<lambda>k. Extracts bare_page 1735689600500 1735689600501 Closed) =
     (Some (build_result (evaluate bare_page) 1735689600500),
      Some \<lparr>cache_data = Some (build_result (evaluate bare_page) 1735689600500),
            cache_timestamp = 1735689600501\<rparr>,
      up_to_cloudflare @ [SimulateHumanBehavior, Evaluate, PageClose, ContextClose])"
  by (simp add: scrapeAQIIn_def cache_fresh_def attempts.simps maxRetries_def iteration_def
        evaluate_bare_page Let_def)

theorem successful_scrape_has_no_zero_field_witness:
  "\<not> cache_fresh None 0
   \<and> page_data.pm25 (evaluate bare_page) = 0 \<and> page_data.pm10 (evaluate bare_page) = 0
   \<and> page_data.temperature (evaluate bare_page) = 0
   \<and> page_data.humidity (evaluate bare_page) = 0
   \<and> page_data.windSpeed (evaluate bare_page) = 0
   \<and> (\<exists>r c trace.
         scrapeAQIIn None 0 (\<lambda>k. Extracts bare_page 1735689600500 1735689600501 Closed) =
           (Some r, c, trace)
         \<and> AQIScrapedData.delhiAqi r = 365
         \<and> AQIScrapedData.pm25 r = 255 \<and> AQIScrapedData.pm10 r = 402
         \<and> AQIScrapedData.temperature r = 15 \<and> AQIScrapedData.humidity r = 70
         \<and> AQIScrapedData.windSpeed r = 10)"
proof -
  have miss: "\<not> cache_fresh None 0"
    by (simp add: cache_fresh_def)
  from successful_scrape_has_no_zero_field [OF miss scrape_bare_page]
  obtain k :: nat and page builtAt cachedAt where
    w: "Extracts bare_page 1735689600500 1735689600501 Closed =
          Extracts page builtAt cachedAt Closed"
    and f: "AQIScrapedData.delhiAqi (build_result (evaluate bare_page) 1735689600500) =
          page_data.delhiAqi (evaluate page)"
      "AQIScrapedData.pm25 (build_result (evaluate bare_page) 1735689600500) =
         (if page_data.pm25 (evaluate page) = 0
          then (if page_data.delhiAqi (evaluate page) \<in> {85, 165, 175, 325, 335, 345, 355, 365}
                then (7 * page_data.delhiAqi (evaluate page) + 5) div 10 - 1
                else (7 * page_data.delhiAqi (evaluate page) + 5) div 10)
          else page_data.pm25 (evaluate page))"
      "AQIScrapedData.pm10 (build_result (evaluate bare_page) 1735689600500) =
         (if page_data.pm10 (evaluate page) = 0
          then (11 * page_data.delhiAqi (evaluate page) + 5) div 10
          else page_data.pm10 (evaluate page))"
      "AQIScrapedData.temperature (build_result (evaluate bare_page) 1735689600500) =
         (if page_data.temperature (evaluate page) = 0 then 15
          else page_data.temperature (evaluate page))"
      "AQIScrapedData.humidity (build_result (evaluate bare_page) 1735689600500) =
         (if page_data.humidity (evaluate page) = 0 then 70
          else page_data.humidity (evaluate page))"
      "AQIScrapedData.windSpeed (build_result (evaluate bare_page) 1735689600500) =
         (if page_data.windSpeed (evaluate page) = 0 then 10
          else page_data.windSpeed (evaluate page))"
    by blast
  from w have page: "page = bare_page"
    by simp
  have v: "AQIScrapedData.delhiAqi (build_result (evaluate bare_page) 1735689600500) = 365"
    "AQIScrapedData.pm25 (build_result (evaluate bare_page) 1735689600500) = 255"
    "AQIScrapedData.pm10 (build_result (evaluate bare_page) 1735689600500) = 402"
    "AQIScrapedData.temperature (build_result (evaluate bare_page) 1735689600500) = 15"
    "AQIScrapedData.humidity (build_result (evaluate bare_page) 1735689600500) = 70"
    "AQIScrapedData.windSpeed (build_result (evaluate bare_page) 1735689600500) = 10"
    unfolding f page by (simp_all add: evaluate_bare_page)
  have z: "page_data.pm25 (evaluate bare_page) = 0" "page_data.pm10 (evaluate bare_page) = 0"
    "page_data.temperature (evaluate bare_page) = 0"
    "page_data.humidity (evaluate bare_page) = 0"
    "page_data.windSpeed (evaluate bare_page) = 0"
    by (simp_all add: evaluate_bare_page)
  from miss z v scrape_bare_page show ?thesis
    by blast
qed
section \<open>Retries of the scraper\<close>

text \<open>
  Claim C5 says that an attempt whose extracted index value is 0 is retried with a new
  browser context after a randomized backoff, up to three attempts, and that the function
  then returns no data. On a page without an index value the function does make three
  attempts, each with a new context, and returns \<^verbatim>\<open>null\<close>; but the three attempts follow
  each other directly: the wait \<^verbatim>\<open>humanDelay(3000, 5000)\<close> is not among the events.
  The wait is made only in the \<^verbatim>\<open>catch\<close> block, that is between attempts that throw, as
  the run with a failing navigation shows.
\<close>

theorem zero_index_retry_has_no_backoff:
  "page_data.delhiAqi (evaluate empty_page) = 0
   \<and> scrapeAQIIn None 0 (\<lambda>k. Extracts empty_page 0 0 Closed) =
        (None, None, zero_attempt_events @ zero_attempt_events @ zero_attempt_events)
   \<and> HumanDelay 3000 5000 \<notin> set (zero_attempt_events @ zero_attempt_events @ zero_attempt_events)
   \<and> scrapeAQIIn None 0 (\<lambda>k. Fails AtGoto) =
        (None, None,
         goto_failure_events @ [HumanDelay 3000 5000]
         @ goto_failure_events @ [HumanDelay 3000 5000] @ goto_failure_events)"
  by (simp add: scrapeAQIIn_def cache_fresh_def attempts.simps maxRetries_def iteration_def
        evaluate_empty_page Let_def up_to_cloudflare_def zero_attempt_events_def
        goto_failure_events_def)
section \<open>The cache on failure\<close>

text \<open>
  Claim C7 says that the cache is changed only by a successful extraction and that every
  failure path, an exception included, leaves it as it was. The result is stored in the
  cache before the page and the context are closed. When \<^verbatim>\<open>page.close()\<close> throws in
  each of the three attempts, after an extraction that succeeded, the \<^verbatim>\<open>catch\<close> block
  treats the attempts as failed and the call returns \<^verbatim>\<open>null\<close>, yet the stale entry of
  the cache has been overwritten.
\<close>

theorem cache_overwritten_on_failed_call:
  "\<not> cache_fresh stale_cache 1735689600000
   \<and> fst (scrapeAQIIn stale_cache 1735689600000
             (\<lambda>k. Extracts delhi_page 1735689600500 1735689600501 PageCloseThrows)) = None
   \<and> fst (snd (scrapeAQIIn stale_cache 1735689600000
             (\<lambda>k. Extracts delhi_page 1735689600500 1735689600501 PageCloseThrows))) =
        Some \<lparr>cache_data = Some (build_result (evaluate delhi_page) 1735689600500),
              cache_timestamp = 1735689600501\<rparr>
   \<and> fst (snd (scrapeAQIIn stale_cache 1735689600000
             (\<lambda>k. Extracts delhi_page 1735689600500 1735689600501 PageCloseThrows))) \<noteq> stale_cache"
  by (simp add: scrapeAQIIn_def cache_fresh_def attempts.simps maxRetries_def iteration_def
        evaluate_delhi_page Let_def stale_cache_def CACHE_DURATION_def)

text \<open>
  The cache is kept by every call in which no attempt extracts a non-zero index value:
  challenge timeouts, index values of 0 and exceptions raised before the extraction leave
  it as it was.
\<close>

lemma iteration_keeps_cache:
  assumes "extracts_nothing script"
  shows "cachedScrapedData (fst (snd (iteration script a st))) = cachedScrapedData st"
proof (cases script)
  case (Fails p)
  then show ?thesis by (simp add: iteration_def Let_def)
next
  case (Blocked c)
  then show ?thesis by (simp add: iteration_def Let_def)
next
  case (Extracts page builtAt cachedAt c)
  with assms show ?thesis by (simp add: iteration_def Let_def extracts_nothing_def)
qed

lemma attempts_keep_cache:
  "\<forall>k. extracts_nothing (world k) \<Longrightarrow>
     cachedScrapedData (fst (snd (attempts world a st tr))) = cachedScrapedData st"
proof (induction world a st tr rule: attempts.induct)
  case (1 world attempt st trace)
  show ?case
  proof (cases "attempt \<le> maxRetries")
    case False
    then show ?thesis by (subst attempts.simps) simp
  next
    case True
    obtain e st1 ev where it: "iteration (world attempt) attempt st = (e, st1, ev)"
      by (cases "iteration (world attempt) attempt st")
    from "1.prems" have "extracts_nothing (world attempt)" by simp
    from iteration_keeps_cache [OF this, of attempt st] it
    have st1: "cachedScrapedData st1 = cachedScrapedData st" by simp
    show ?thesis
    proof (cases e)
      case (Return r0)
      with True it st1 show ?thesis by (subst attempts.simps) simp
    next
      case NextAttempt
      from "1.IH" [OF True it [symmetric] NextAttempt refl "1.prems"] st1 True it NextAttempt
      show ?thesis by (subst attempts.simps) simp
    qed
  qed
qed

lemma cache_kept_when_nothing_extracted:
  assumes "\<forall>k. extracts_nothing (world k)"
  shows "fst (snd (scrapeAQIIn c now world)) = c"
proof (cases "cache_fresh c now")
  case True
  then show ?thesis by (simp add: scrapeAQIIn_def)
next
  case False
  from attempts_keep_cache [OF assms, of 1 "\<lparr>page_open = False, cachedScrapedData = c\<rparr>" "[]"]
  show ?thesis
    unfolding cache_miss [OF False] by (simp add: case_prod_beta)
qed

end
